theory Spec2Isabelle
  imports Main "HOL-Library.Sublist"
begin

section \<open>JavaScript values used by the build pipeline\<close>

text \<open>
  The source is JavaScript. A string-valued expression \<open>a || b\<close> yields \<open>b\<close> when
  \<open>a\<close> is \<open>undefined\<close>, \<open>null\<close> or the empty string. An optional property is an
  \<open>option\<close>: \<open>None\<close> stands for a property that is missing (\<open>undefined\<close>).
\<close>

definition or_opt :: "string option \<Rightarrow> string \<Rightarrow> string" where
  "or_opt v d = (case v of None \<Rightarrow> d | Some s \<Rightarrow> if s = [] then d else s)"

definition or_str :: "string \<Rightarrow> string \<Rightarrow> string" where
  "or_str s d = (if s = [] then d else s)"

section \<open>Registry model: tool configuration and build targets (components/builder/index.js)\<close>

text \<open>The \<open>build\<close> block of a CLI_REGISTRY entry and the entry itself.\<close>

record build_config =
  entryPoint :: "string option"
  envPrefix :: "string option"
  binaryName :: "string option"

record tool_config =
  name :: "string option"
  build :: "build_config option"

text \<open>\<open>toolConfig?.build?.binaryName\<close> and its siblings: optional chaining.\<close>

definition cfg_binaryName :: "tool_config option \<Rightarrow> string option" where
  "cfg_binaryName c = Option.bind (Option.bind c build) binaryName"

definition cfg_envPrefix :: "tool_config option \<Rightarrow> string option" where
  "cfg_envPrefix c = Option.bind (Option.bind c build) envPrefix"

definition cfg_entryPoint :: "tool_config option \<Rightarrow> string option" where
  "cfg_entryPoint c = Option.bind (Option.bind c build) entryPoint"


text \<open>A build target template, and the concrete target that adds \<open>output\<close>.\<close>

record template =
  target :: string
  platform :: string
  arch :: string
  variant :: string
  extension :: string
  requires :: "string option"
  libc :: "string option"
  shell :: "string option"
  description :: "string option"

record build_target = template +
  "output" :: string

definition tmpl :: "string \<Rightarrow> string \<Rightarrow> string \<Rightarrow> string \<Rightarrow> string \<Rightarrow> template" where
  "tmpl t p a v e = \<lparr> target = t, platform = p, arch = a, variant = v, extension = e,
     requires = None, libc = None, shell = None, description = None \<rparr>"

text \<open>The table, in the order of the object literal (the order \<open>Object.entries\<close> gives).\<close>

definition BUILD_TARGET_TEMPLATES :: "(string \<times> template) list" where
  "BUILD_TARGET_TEMPLATES =
   [ (''windows-x64'', tmpl ''bun-windows-x64'' ''windows'' ''x64'' ''standard'' ''.exe''),
     (''windows-x64-modern'',
        (tmpl ''bun-windows-x64-modern'' ''windows'' ''x64'' ''modern'' ''.exe'')
          \<lparr> requires := Some ''AVX2 (CPUs from 2013+)'' \<rparr>),
     (''windows-x64-baseline'',
        (tmpl ''bun-windows-x64-baseline'' ''windows'' ''x64'' ''baseline'' ''.exe'')
          \<lparr> requires := Some ''SSE2 (CPUs from 2003+)'' \<rparr>),
     (''linux-x64'', tmpl ''bun-linux-x64'' ''linux'' ''x64'' ''standard'' ''''),
     (''linux-x64-modern'', tmpl ''bun-linux-x64-modern'' ''linux'' ''x64'' ''modern'' ''''),
     (''linux-x64-baseline'', tmpl ''bun-linux-x64-baseline'' ''linux'' ''x64'' ''baseline'' ''''),
     (''linux-arm64'', tmpl ''bun-linux-arm64'' ''linux'' ''arm64'' ''standard'' ''''),
     (''linux-x64-musl'',
        (tmpl ''bun-linux-x64-musl'' ''linux'' ''x64'' ''musl'' '''') \<lparr> libc := Some ''musl'' \<rparr>),
     (''linux-arm64-musl'',
        (tmpl ''bun-linux-arm64-musl'' ''linux'' ''arm64'' ''musl'' '''') \<lparr> libc := Some ''musl'' \<rparr>),
     (''macos-x64'', tmpl ''bun-darwin-x64'' ''macos'' ''x64'' ''standard'' ''''),
     (''macos-arm64'', tmpl ''bun-darwin-arm64'' ''macos'' ''arm64'' ''standard'' ''''),
     (''android-arm64'',
        (tmpl ''bun-linux-arm64'' ''android'' ''arm64'' ''termux'' '''')
          \<lparr> shell := Some ''/data/data/com.termux/files/usr/bin/bash'',
            description := Some ''Android ARM64 (Termux)'' \<rparr>) ]"

text \<open>
  \<open>generateBuildTargets(toolId, toolConfig)\<close>: every template is copied and \<open>output\<close> is
  set to \<open>`${binaryName}-${id}${template.extension || ''}`\<close>.
\<close>

definition generateBuildTargets :: "string \<Rightarrow> tool_config option \<Rightarrow> (string \<times> build_target) list" where
  "generateBuildTargets toolId toolConfig =
     (let bn = or_opt (cfg_binaryName toolConfig) toolId
      in map (\<lambda>(i, t). (i, template.extend t
                 (build_target.fields (bn @ ''-'' @ i @ or_str (extension t) ''''))))
           BUILD_TARGET_TEMPLATES)"

text \<open>The default targets, generated for Claude Code.\<close>

definition BUILD_TARGETS :: "(string \<times> build_target) list" where
  "BUILD_TARGETS = generateBuildTargets ''claude-code''
     (Some \<lparr> name = None,
             build = Some \<lparr> entryPoint = None, envPrefix = None,
                             binaryName = Some ''claude-code'' \<rparr> \<rparr>)"

text \<open>The host the process runs on: \<open>process.platform\<close> and \<open>process.arch\<close>.\<close>

record host =
  process_platform :: string
  process_arch :: string

definition host_platform :: "host \<Rightarrow> string" where
  "host_platform h =
     (if process_platform h = ''win32'' then ''windows''
      else if process_platform h = ''darwin'' then ''macos''
      else ''linux'')"

definition getCurrentTarget :: "host \<Rightarrow> string" where
  "getCurrentTarget h =
     (case find (\<lambda>(i, config). platform config = host_platform h \<and> arch config = process_arch h
                     \<and> variant config = ''standard'') BUILD_TARGETS of
        None \<Rightarrow> ''linux-x64''
      | Some (i, config) \<Rightarrow> or_str i ''linux-x64'')"

definition codex_config :: "tool_config option" where
  "codex_config = Some \<lparr> name = Some ''OpenAI Codex'',
      build = Some \<lparr> entryPoint = Some ''bin/codex.js'', envPrefix = Some ''CODEX'',
                      binaryName = Some ''codex'' \<rparr> \<rparr>"

definition windows_x64_host :: host where
  "windows_x64_host = \<lparr> process_platform = ''win32'', process_arch = ''x64'' \<rparr>"


section \<open>JSON values, the file system and the manifest cache (components/downloader/index.js)\<close>

text \<open>
  What \<open>JSON.parse\<close> can return, and \<open>undefined\<close> for a property that is not there.
  Numbers are the integers; the manifest holds none.
\<close>

datatype jsval =
    JUndefined
  | JNull
  | JBool bool
  | JNum int
  | JStr string
  | JArr "jsval list"
  | JObj "(string \<times> jsval) list"

text \<open>What \<open>if (v)\<close> and \<open>!v\<close> test.\<close>

fun truthy :: "jsval \<Rightarrow> bool" where
  "truthy JUndefined = False"
| "truthy JNull = False"
| "truthy (JBool b) = b"
| "truthy (JNum n) = (n \<noteq> 0)"
| "truthy (JStr s) = (s \<noteq> [])"
| "truthy (JArr xs) = True"
| "truthy (JObj kvs) = True"

text \<open>
  \<open>a === b\<close> where \<open>a\<close> was read from a freshly parsed manifest: arrays and objects are
  compared by reference, and a fresh one is identical to nothing else.
\<close>

fun strict_eq :: "jsval \<Rightarrow> jsval \<Rightarrow> bool" where
  "strict_eq (JArr xs) b = False"
| "strict_eq (JObj kvs) b = False"
| "strict_eq a b = (a = b)"

text \<open>Property access \<open>v.k\<close> on a value that is neither \<open>null\<close> nor \<open>undefined\<close>.\<close>

fun get_prop :: "jsval \<Rightarrow> string \<Rightarrow> jsval" where
  "get_prop (JObj kvs) k = (case map_of kvs k of None \<Rightarrow> JUndefined | Some v \<Rightarrow> v)"
| "get_prop v k = JUndefined"

text \<open>The conversion to string that a template literal \<open>`${v}`\<close> applies.\<close>

fun nat_str :: "nat \<Rightarrow> string" where
  "nat_str n = (if n < 10 then [char_of (48 + n)] else nat_str (n div 10) @ [char_of (48 + n mod 10)])"

definition int_str :: "int \<Rightarrow> string" where
  "int_str n = (if n < 0 then ''-'' @ nat_str (nat (- n)) else nat_str (nat n))"

fun join_with :: "string \<Rightarrow> string list \<Rightarrow> string" where
  "join_with sep [] = []"
| "join_with sep [x] = x"
| "join_with sep (x # y # ys) = x @ sep @ join_with sep (y # ys)"

fun String_of :: "jsval \<Rightarrow> string" where
  "String_of JUndefined = ''undefined''"
| "String_of JNull = ''null''"
| "String_of (JBool b) = (if b then ''true'' else ''false'')"
| "String_of (JNum n) = int_str n"
| "String_of (JStr s) = s"
| "String_of (JArr xs) =
     join_with '','' (map (\<lambda>x. if x = JUndefined \<or> x = JNull then [] else String_of x) xs)"
| "String_of (JObj kvs) = ''[object Object]''"

text \<open>
  \<open>JSON.stringify\<close> and \<open>JSON.parse\<close> are the runtime's: the model takes them as a
  parameter. \<open>JSON_stringify\<close> gives \<open>None\<close> where \<open>JSON.stringify\<close> returns \<open>undefined\<close>,
  \<open>JSON_parse\<close> gives \<open>None\<close> where \<open>JSON.parse\<close> throws a SyntaxError.
\<close>

record json_codec =
  JSON_stringify :: "jsval \<Rightarrow> string option"
  JSON_parse :: "string \<Rightarrow> jsval option"

text \<open>
  What \<open>JSON.parse(JSON.stringify(v))\<close> is for a codec that keeps to the standard: a
  property whose value is \<open>undefined\<close> is dropped from an object, and an \<open>undefined\<close>
  element of an array becomes \<open>null\<close>.
\<close>

fun json_image :: "jsval \<Rightarrow> jsval" where
  "json_image (JArr xs) = JArr (map (\<lambda>x. if x = JUndefined then JNull else json_image x) xs)"
| "json_image (JObj kvs) =
     JObj (map (\<lambda>kv. (fst kv, json_image (snd kv))) (filter (\<lambda>kv. snd kv \<noteq> JUndefined) kvs))"
| "json_image v = v"

text \<open>
  The file system: a path names a regular file with its content, a directory, or nothing.
  \<open>path.join\<close> is modelled for a directory path and a relative name in normal form (no
  empty, \<open>.\<close> or \<open>..\<close> segment, no doubled or trailing slash), where it is the two joined
  by a slash.
\<close>

datatype node = File string | Dir

type_synonym filesystem = "string \<rightharpoonup> node"

datatype fs_error = ENOENT | EISDIR | ENOTDIR | EEXIST

definition path_join :: "string \<Rightarrow> string \<Rightarrow> string" where
  "path_join a b = a @ ''/'' @ b"

definition existsSync :: "filesystem \<Rightarrow> string \<Rightarrow> bool" where
  "existsSync fs p = (fs p \<noteq> None)"

definition readFileSync :: "filesystem \<Rightarrow> string \<Rightarrow> fs_error + string" where
  "readFileSync fs p =
     (case fs p of None \<Rightarrow> Inl ENOENT | Some Dir \<Rightarrow> Inl EISDIR | Some (File c) \<Rightarrow> Inr c)"

definition is_file :: "filesystem \<Rightarrow> string \<Rightarrow> bool" where
  "is_file fs p = (case fs p of Some (File c) \<Rightarrow> True | _ \<Rightarrow> False)"

text \<open>The directories above a path: its prefixes that end before a slash.\<close>

definition ancestors :: "string \<Rightarrow> string list" where
  "ancestors p = map (\<lambda>i. take i p) (filter (\<lambda>i. p ! i = CHR ''/'') [1..<length p])"

definition parent_ok :: "filesystem \<Rightarrow> string \<Rightarrow> bool" where
  "parent_ok fs p = (ancestors p = [] \<or> fs (last (ancestors p)) = Some Dir)"

text \<open>
  \<open>fs.writeFileSync\<close> creates or replaces a regular file; it fails on a directory and
  where the directory of the path is missing or is a file.
\<close>

definition writeFileSync :: "filesystem \<Rightarrow> string \<Rightarrow> string \<Rightarrow> fs_error + filesystem" where
  "writeFileSync fs p c =
     (if fs p = Some Dir then Inl EISDIR
      else if \<not> parent_ok fs p then
        (if ancestors p \<noteq> [] \<and> fs (last (ancestors p)) = None then Inl ENOENT else Inl ENOTDIR)
      else Inr (fs(p \<mapsto> File c)))"

text \<open>\<open>fs.mkdirSync(p, { recursive: true })\<close>: the path and every missing directory above it.\<close>

definition mkdirSync_recursive :: "filesystem \<Rightarrow> string \<Rightarrow> fs_error + filesystem" where
  "mkdirSync_recursive fs p =
     (if list_ex (is_file fs) (ancestors p) then Inl ENOTDIR
      else if is_file fs p then Inl EEXIST
      else Inr (\<lambda>q. if q = p \<or> q \<in> set (ancestors p) then Some Dir else fs q))"

definition unlinkSync :: "filesystem \<Rightarrow> string \<Rightarrow> fs_error + filesystem" where
  "unlinkSync fs p =
     (case fs p of None \<Rightarrow> Inl ENOENT | Some Dir \<Rightarrow> Inl EISDIR | Some (File c) \<Rightarrow> Inr (fs(p := None)))"

text \<open>\<open>fs.rmSync(p, { recursive: true, force: true })\<close>: the path and everything below it.\<close>

definition rmSync_recursive :: "filesystem \<Rightarrow> string \<Rightarrow> filesystem" where
  "rmSync_recursive fs p = (\<lambda>q. if q = p \<or> prefix (p @ ''/'') q then None else fs q)"

definition MANIFEST_FILENAME :: string where
  "MANIFEST_FILENAME = ''.atomcli-manifest.json''"

text \<open>
  \<open>readManifest(destDir)\<close>: the parsed manifest, or \<open>null\<close> when the file is missing,
  unreadable or not JSON (the \<open>catch\<close> swallows the exception).
\<close>

definition readManifest :: "json_codec \<Rightarrow> filesystem \<Rightarrow> string \<Rightarrow> jsval" where
  "readManifest js fs destDir =
     (let manifestPath = path_join destDir MANIFEST_FILENAME in
      if existsSync fs manifestPath then
        (case readFileSync fs manifestPath of
           Inl e \<Rightarrow> JNull
         | Inr content \<Rightarrow> (case JSON_parse js content of None \<Rightarrow> JNull | Some v \<Rightarrow> v))
      else JNull)"

text \<open>
  \<open>writeManifest(destDir, data)\<close>: creates the directory if it is missing and writes the
  file; an exception of either step is swallowed, with what was done before it kept.
  \<open>fs.writeFileSync\<close> throws a TypeError for data that is not a string.
\<close>

definition writeManifest :: "json_codec \<Rightarrow> filesystem \<Rightarrow> string \<Rightarrow> jsval \<Rightarrow> filesystem" where
  "writeManifest js fs destDir data =
     (let manifestPath = path_join destDir MANIFEST_FILENAME in
      case (if \<not> existsSync fs destDir then mkdirSync_recursive fs destDir else Inr fs) of
        Inl e \<Rightarrow> fs
      | Inr fs1 \<Rightarrow>
          (case JSON_stringify js data of
             None \<Rightarrow> fs1
           | Some text \<Rightarrow>
               (case writeFileSync fs1 manifestPath text of Inl e \<Rightarrow> fs1 | Inr fs2 \<Rightarrow> fs2)))"

text \<open>
  The record that \<open>downloadFromNpm\<close> hands to \<open>writeManifest\<close>, as the object literal
  builds it. The registry may give no shasum: then the property is \<open>undefined\<close>.
\<close>

record download_manifest =
  m_packageName :: string
  m_version :: string
  m_shasum :: "string option"
  m_tarball :: string
  m_downloadedAt :: string
  m_extractDir :: string

definition opt_val :: "string option \<Rightarrow> jsval" where
  "opt_val v = (case v of None \<Rightarrow> JUndefined | Some s \<Rightarrow> JStr s)"

definition manifest_object :: "download_manifest \<Rightarrow> jsval" where
  "manifest_object m = JObj
     [ (''packageName'', JStr (m_packageName m)),
       (''version'', JStr (m_version m)),
       (''shasum'', opt_val (m_shasum m)),
       (''tarball'', JStr (m_tarball m)),
       (''downloadedAt'', JStr (m_downloadedAt m)),
       (''extractDir'', JStr (m_extractDir m)) ]"

record check_result =
  upToDate :: bool
  localVersion :: jsval
  reason :: string

text \<open>\<open>checkIfUpToDate(destDir, packageName, remoteVersion, remoteShasum)\<close>.\<close>

definition checkIfUpToDate ::
  "json_codec \<Rightarrow> filesystem \<Rightarrow> string \<Rightarrow> string \<Rightarrow> jsval \<Rightarrow> jsval \<Rightarrow> check_result" where
  "checkIfUpToDate js fs destDir packageName remoteVersion remoteShasum =
     (let manifest = readManifest js fs destDir in
      if \<not> truthy manifest then
        \<lparr> upToDate = False, localVersion = JNull, reason = ''No local manifest found'' \<rparr>
      else if \<not> strict_eq (get_prop manifest ''packageName'') (JStr packageName) then
        \<lparr> upToDate = False, localVersion = get_prop manifest ''version'',
          reason = ''Different package (local: '' @ String_of (get_prop manifest ''packageName'')
                     @ '', remote: '' @ packageName @ '')'' \<rparr>
      else if \<not> strict_eq (get_prop manifest ''version'') remoteVersion then
        \<lparr> upToDate = False, localVersion = get_prop manifest ''version'',
          reason = ''Version mismatch (local: '' @ String_of (get_prop manifest ''version'')
                     @ '', remote: '' @ String_of remoteVersion @ '')'' \<rparr>
      else if truthy (get_prop manifest ''shasum'') \<and> truthy remoteShasum
                \<and> \<not> strict_eq (get_prop manifest ''shasum'') remoteShasum then
        \<lparr> upToDate = False, localVersion = get_prop manifest ''version'',
          reason = ''Checksum mismatch (package may have been republished)'' \<rparr>
      else
        (let extractDir = path_join destDir ''package'' in
         if \<not> existsSync fs extractDir then
           \<lparr> upToDate = False, localVersion = get_prop manifest ''version'',
             reason = ''Extracted files missing'' \<rparr>
         else
           \<lparr> upToDate = True, localVersion = get_prop manifest ''version'',
             reason = ''Local version matches remote'' \<rparr>))"

declare nat_str.simps [simp del]

section \<open>A JSON codec to run the examples\<close>

text \<open>
  The properties below hold for every codec. The examples need one to compute with: the
  JSON text of the values above as \<open>JSON.stringify(v, null, 2)\<close> writes it, and a reader
  for such text. Numbers are integers and a \<open>\u\<close> escape is read for an ASCII character;
  other text is rejected.
\<close>

definition hex_digit :: "nat \<Rightarrow> char" where
  "hex_digit n = (if n < 10 then char_of (48 + n) else char_of (87 + n))"

definition json_escape :: "char \<Rightarrow> string" where
  "json_escape c =
     (if c = CHR 0x22 then [CHR 0x5C, CHR 0x22]
      else if c = CHR 0x5C then [CHR 0x5C, CHR 0x5C]
      else if c = CHR 0x08 then [CHR 0x5C, CHR ''b'']
      else if c = CHR 0x09 then [CHR 0x5C, CHR ''t'']
      else if c = CHR 0x0A then [CHR 0x5C, CHR ''n'']
      else if c = CHR 0x0C then [CHR 0x5C, CHR ''f'']
      else if c = CHR 0x0D then [CHR 0x5C, CHR ''r'']
      else if (of_char c :: nat) < 32 then
        [CHR 0x5C, CHR ''u'', CHR ''0'', CHR ''0'', hex_digit (of_char c div 16), hex_digit (of_char c mod 16)]
      else [c])"

definition json_quote :: "string \<Rightarrow> string" where
  "json_quote s = [CHR 0x22] @ concat (map json_escape s) @ [CHR 0x22]"

fun stringify_at :: "string \<Rightarrow> jsval \<Rightarrow> string" where
  "stringify_at ind JUndefined = ''null''"
| "stringify_at ind JNull = ''null''"
| "stringify_at ind (JBool b) = (if b then ''true'' else ''false'')"
| "stringify_at ind (JNum n) = int_str n"
| "stringify_at ind (JStr s) = json_quote s"
| "stringify_at ind (JArr xs) =
     (if xs = [] then ''[]''
      else ''['' @ [CHR 0x0A]
        @ join_with ('','' @ [CHR 0x0A])
            (map (\<lambda>x. ind @ ''  '' @ stringify_at (ind @ ''  '') x) xs)
        @ [CHR 0x0A] @ ind @ '']'')"
| "stringify_at ind (JObj kvs) =
     (if list_all (\<lambda>kv. snd kv = JUndefined) kvs then ''{}''
      else ''{'' @ [CHR 0x0A]
        @ join_with ('','' @ [CHR 0x0A])
            (map (\<lambda>kv. ind @ ''  '' @ json_quote (fst kv) @ '': '' @ stringify_at (ind @ ''  '') (snd kv))
               (filter (\<lambda>kv. snd kv \<noteq> JUndefined) kvs))
        @ [CHR 0x0A] @ ind @ ''}'')"

definition stringify :: "jsval \<Rightarrow> string option" where
  "stringify v = (if v = JUndefined then None else Some (stringify_at [] v))"

definition is_ws :: "char \<Rightarrow> bool" where
  "is_ws c = (c = CHR '' '' \<or> c = CHR 0x0A \<or> c = CHR 0x0D \<or> c = CHR 0x09)"

definition skip_ws :: "string \<Rightarrow> string" where
  "skip_ws s = dropWhile is_ws s"

definition is_digit :: "char \<Rightarrow> bool" where
  "is_digit c = (48 \<le> (of_char c :: nat) \<and> (of_char c :: nat) \<le> 57)"

definition hex_val :: "char \<Rightarrow> nat option" where
  "hex_val c =
     (if is_digit c then Some (of_char c - 48)
      else if 97 \<le> (of_char c :: nat) \<and> (of_char c :: nat) \<le> 102 then Some (of_char c - 87)
      else if 65 \<le> (of_char c :: nat) \<and> (of_char c :: nat) \<le> 70 then Some (of_char c - 55)
      else None)"

definition unescape :: "char \<Rightarrow> char option" where
  "unescape e =
     (if e = CHR 0x22 \<or> e = CHR 0x5C \<or> e = CHR ''/'' then Some e
      else if e = CHR ''b'' then Some (CHR 0x08)
      else if e = CHR ''t'' then Some (CHR 0x09)
      else if e = CHR ''n'' then Some (CHR 0x0A)
      else if e = CHR ''f'' then Some (CHR 0x0C)
      else if e = CHR ''r'' then Some (CHR 0x0D)
      else None)"

definition unicode_escape :: "string \<Rightarrow> char option" where
  "unicode_escape s =
     (case map hex_val (take 4 s) of
        [Some a, Some b, Some c, Some d] \<Rightarrow>
          (if a = 0 \<and> b = 0 \<and> c < 8 then Some (char_of (16 * c + d)) else None)
      | _ \<Rightarrow> None)"

text \<open>The characters of a string literal after its opening quote, and the rest of the text.\<close>

fun parse_string_body :: "string \<Rightarrow> (string \<times> string) option" where
  "parse_string_body [] = None"
| "parse_string_body (c # cs) =
     (if c = CHR 0x22 then Some ([], cs)
      else if c = CHR 0x5C then
        (case cs of
           [] \<Rightarrow> None
         | e # es \<Rightarrow>
             (if e = CHR ''u'' then
                (case unicode_escape es of
                   None \<Rightarrow> None
                 | Some ch \<Rightarrow> map_option (\<lambda>(s, r). (ch # s, r)) (parse_string_body (drop 4 es)))
              else
                (case unescape e of
                   None \<Rightarrow> None
                 | Some ch \<Rightarrow> map_option (\<lambda>(s, r). (ch # s, r)) (parse_string_body es))))
      else if (of_char c :: nat) < 32 then None
      else map_option (\<lambda>(s, r). (c # s, r)) (parse_string_body cs))"

definition digits_val :: "string \<Rightarrow> nat" where
  "digits_val ds = foldl (\<lambda>n c. 10 * n + (of_char c - 48)) 0 ds"

definition parse_number :: "string \<Rightarrow> (jsval \<times> string) option" where
  "parse_number s =
     (let neg = (s \<noteq> [] \<and> hd s = CHR ''-'');
          t = (if neg then tl s else s);
          ds = takeWhile is_digit t;
          r = dropWhile is_digit t
      in if ds = [] \<or> (length ds > 1 \<and> hd ds = CHR ''0'') then None
         else if r \<noteq> [] \<and> (hd r = CHR ''.'' \<or> hd r = CHR ''e'' \<or> hd r = CHR ''E'') then None
         else Some (JNum (if neg then - int (digits_val ds) else int (digits_val ds)), r))"

text \<open>
  Values, array elements and object members, with a bound on the steps that the length of
  the text exceeds. A repeated key keeps its place and takes the later value.
\<close>

fun update_member :: "string \<Rightarrow> jsval \<Rightarrow> (string \<times> jsval) list \<Rightarrow> (string \<times> jsval) list" where
  "update_member k v [] = [(k, v)]"
| "update_member k v (p # ps) = (if fst p = k then (k, v) # ps else p # update_member k v ps)"

fun parse_value :: "nat \<Rightarrow> string \<Rightarrow> (jsval \<times> string) option"
  and parse_elements :: "nat \<Rightarrow> jsval list \<Rightarrow> string \<Rightarrow> (jsval \<times> string) option"
  and parse_members :: "nat \<Rightarrow> (string \<times> jsval) list \<Rightarrow> string \<Rightarrow> (jsval \<times> string) option"
where
  "parse_value 0 s = None"
| "parse_value (Suc n) s =
     (case skip_ws s of
        [] \<Rightarrow> None
      | c # cs \<Rightarrow>
          if c = CHR 0x22 then map_option (\<lambda>(x, r). (JStr x, r)) (parse_string_body cs)
          else if c = CHR ''['' then
            (if skip_ws cs \<noteq> [] \<and> hd (skip_ws cs) = CHR '']'' then Some (JArr [], tl (skip_ws cs))
             else parse_elements n [] cs)
          else if c = CHR ''{'' then
            (if skip_ws cs \<noteq> [] \<and> hd (skip_ws cs) = CHR ''}'' then Some (JObj [], tl (skip_ws cs))
             else parse_members n [] cs)
          else if prefix ''null'' (c # cs) then Some (JNull, drop 4 (c # cs))
          else if prefix ''true'' (c # cs) then Some (JBool True, drop 4 (c # cs))
          else if prefix ''false'' (c # cs) then Some (JBool False, drop 5 (c # cs))
          else parse_number (c # cs))"
| "parse_elements 0 acc s = None"
| "parse_elements (Suc n) acc s =
     (case parse_value n s of
        None \<Rightarrow> None
      | Some (v, r) \<Rightarrow>
          (case skip_ws r of
             [] \<Rightarrow> None
           | c # cs \<Rightarrow>
               if c = CHR '','' then parse_elements n (acc @ [v]) cs
               else if c = CHR '']'' then Some (JArr (acc @ [v]), cs)
               else None))"
| "parse_members 0 acc s = None"
| "parse_members (Suc n) acc s =
     (case skip_ws s of
        [] \<Rightarrow> None
      | q # qs \<Rightarrow>
          if q \<noteq> CHR 0x22 then None
          else
            (case parse_string_body qs of
               None \<Rightarrow> None
             | Some (k, r) \<Rightarrow>
                 (case skip_ws r of
                    [] \<Rightarrow> None
                  | c # cs \<Rightarrow>
                      if c \<noteq> CHR '':'' then None
                      else
                        (case parse_value n cs of
                           None \<Rightarrow> None
                         | Some (v, r') \<Rightarrow>
                             (case skip_ws r' of
                                [] \<Rightarrow> None
                              | d # ds \<Rightarrow>
                                  if d = CHR '','' then parse_members n (update_member k v acc) ds
                                  else if d = CHR ''}'' then Some (JObj (update_member k v acc), ds)
                                  else None)))))"

definition parse :: "string \<Rightarrow> jsval option" where
  "parse s =
     (case parse_value (Suc (length s)) s of
        None \<Rightarrow> None
      | Some (v, r) \<Rightarrow> if skip_ws r = [] then Some v else None)"

definition example_codec :: json_codec where
  "example_codec = \<lparr> JSON_stringify = stringify, JSON_parse = parse \<rparr>"

text \<open>A cached download of Claude Code 2.0.75: the manifest and the extracted package.\<close>

definition claude_download :: download_manifest where
  "claude_download =
     \<lparr> m_packageName = ''@anthropic-ai/claude-code'',
       m_version = ''2.0.75'',
       m_shasum = Some ''3f2a9c0d1e4b5a6978c0d1e2f3a4b5c6d7e8f901'',
       m_tarball = ''https://registry.npmjs.org/@anthropic-ai/claude-code/-/claude-code-2.0.75.tgz'',
       m_downloadedAt = ''2026-01-03T10:30:00.000Z'',
       m_extractDir = ''core/claude-code/package'' \<rparr>"

definition claude_manifest :: jsval where
  "claude_manifest = manifest_object claude_download"

definition cached_fs :: filesystem where
  "cached_fs =
     [ ''core'' \<mapsto> Dir,
       ''core/claude-code'' \<mapsto> Dir,
       ''core/claude-code/.atomcli-manifest.json'' \<mapsto> File (stringify_at [] claude_manifest),
       ''core/claude-code/package'' \<mapsto> Dir,
       ''core/claude-code/package/cli.js'' \<mapsto> File ''console.log(1)'' ]"

text \<open>A project in which nothing was downloaded yet, and one where a file stands in the way.\<close>

definition fresh_fs :: filesystem where
  "fresh_fs = [ ''core'' \<mapsto> Dir ]"

definition blocked_fs :: filesystem where
  "blocked_fs = [ ''core'' \<mapsto> Dir, ''core/claude-code'' \<mapsto> File ''not a directory'' ]"

section \<open>Regular expressions, as the patcher uses them\<close>

text \<open>
  Text is the byte sequence of the file (UTF-8). The patterns that the source writes as
  literals are built from literal text, character classes, and greedy repetitions of a
  class; \<open>rx_match\<close> is the backtracking match of such a pattern at the start of a text, and
  gives the rest of the text after the match that JavaScript finds.
\<close>

datatype cclass = AnyOf string | NoneOf string | Word | Dot

definition is_word :: "char \<Rightarrow> bool" where
  "is_word c = (let n = (of_char c :: nat) in
     (48 \<le> n \<and> n \<le> 57) \<or> (65 \<le> n \<and> n \<le> 90) \<or> (97 \<le> n \<and> n \<le> 122) \<or> n = 95)"

text \<open>
  Whether a class takes the character \<open>c\<close> that stands before \<open>cs\<close>. The dot takes anything
  but a line terminator: LF, CR, U+2028 and U+2029. The last two are three bytes each
  (\<open>E2 80 A8\<close> and \<open>E2 80 A9\<close>), and the dot does not enter them. In the source the dot only
  stands under a star that a line feed follows, where the match byte by byte is the match
  character by character.
\<close>

fun in_class :: "cclass \<Rightarrow> char \<Rightarrow> string \<Rightarrow> bool" where
  "in_class (AnyOf s) c cs = (c \<in> set s)"
| "in_class (NoneOf s) c cs = (c \<notin> set s)"
| "in_class Word c cs = is_word c"
| "in_class Dot c cs =
     (c \<noteq> CHR 0x0A \<and> c \<noteq> CHR 0x0D \<and> \<not> prefix [CHR 0xE2, CHR 0x80, CHR 0xA8] (c # cs)
      \<and> \<not> prefix [CHR 0xE2, CHR 0x80, CHR 0xA9] (c # cs))"

datatype atom = Lit string | One cclass | Star cclass | Plus cclass | Opt string

fun rx_match :: "atom list \<Rightarrow> string \<Rightarrow> string option" where
  "rx_match [] s = Some s"
| "rx_match (Lit l # as) s = (if prefix l s then rx_match as (drop (length l) s) else None)"
| "rx_match (One k # as) [] = None"
| "rx_match (One k # as) (c # cs) = (if in_class k c cs then rx_match as cs else None)"
| "rx_match (Opt l # as) s =
     (case (if prefix l s then rx_match as (drop (length l) s) else None) of
        Some r \<Rightarrow> Some r
      | None \<Rightarrow> rx_match as s)"
| "rx_match (Star k # as) [] = rx_match as []"
| "rx_match (Star k # as) (c # cs) =
     (if in_class k c cs then
        (case rx_match (Star k # as) cs of Some r \<Rightarrow> Some r | None \<Rightarrow> rx_match as (c # cs))
      else rx_match as (c # cs))"
| "rx_match (Plus k # as) [] = None"
| "rx_match (Plus k # as) (c # cs) = (if in_class k c cs then rx_match (Star k # as) cs else None)"

text \<open>\<open>text.match(/^.../)\<close>: the matched text and the rest.\<close>

definition match_start :: "atom list \<Rightarrow> string \<Rightarrow> (string \<times> string) option" where
  "match_start p s = map_option (\<lambda>r. (take (length s - length r) s, r)) (rx_match p s)"

text \<open>The leftmost match: the text before it, the match, the text after it.\<close>

fun rx_search :: "atom list \<Rightarrow> string \<Rightarrow> (string \<times> string \<times> string) option" where
  "rx_search p [] = map_option (\<lambda>r. ([], [], r)) (rx_match p [])"
| "rx_search p (c # cs) =
     (case rx_match p (c # cs) of
        Some r \<Rightarrow> Some ([], take (length (c # cs) - length r) (c # cs), r)
      | None \<Rightarrow> map_option (\<lambda>(b, m, a). (c # b, m, a)) (rx_search p cs))"

definition rx_test :: "atom list \<Rightarrow> string \<Rightarrow> bool" where
  "rx_test p s = (rx_search p s \<noteq> None)"

text \<open>
  A regular expression without flags is what its \<open>exec\<close> gives on a text: \<open>null\<close>, or the
  index of the leftmost match, the matched text, the captures of its groups (\<open>undefined\<close>
  for a group that took no part) and the named groups, where the pattern has any. A pattern
  of the kind above has no groups.
\<close>

record exec_result =
  hit_index :: nat
  hit_text :: string
  hit_captures :: "string option list"
  hit_groups :: "(string \<times> string option) list option"

type_synonym regexp = "string \<Rightarrow> exec_result option"

definition exec_of :: "atom list \<Rightarrow> regexp" where
  "exec_of p s =
     map_option (\<lambda>(b, m, a). \<lparr> hit_index = length b, hit_text = m, hit_captures = [],
                               hit_groups = None \<rparr>) (rx_search p s)"

text \<open>
  What a replacement text stands for at a match: \<open>$$\<close> is a dollar sign, \<open>$&\<close> the matched
  text, \<open>$`\<close> the text before the match and \<open>$'\<close> the text after it, \<open>$n\<close> and \<open>$nn\<close> the
  capture of that number where the pattern has so many groups, and \<open>$<name>\<close> the named
  group where the pattern has named groups. Any other dollar sign stands for itself.
\<close>

definition capture :: "string option list \<Rightarrow> nat \<Rightarrow> string" where
  "capture caps n = (case caps ! (n - 1) of None \<Rightarrow> [] | Some v \<Rightarrow> v)"

function GetSubstitution ::
  "string \<Rightarrow> string \<Rightarrow> string \<Rightarrow> string option list \<Rightarrow> (string \<times> string option) list option
     \<Rightarrow> string \<Rightarrow> string" where
  "GetSubstitution m b a caps named [] = []"
| "GetSubstitution m b a caps named [c] = [c]"
| "GetSubstitution m b a caps named (c # d # t) =
     (if c \<noteq> CHR ''$'' then c # GetSubstitution m b a caps named (d # t)
      else if d = CHR ''$'' then CHR ''$'' # GetSubstitution m b a caps named t
      else if d = CHR ''&'' then m @ GetSubstitution m b a caps named t
      else if d = CHR 0x60 then b @ GetSubstitution m b a caps named t
      else if d = CHR 0x27 then a @ GetSubstitution m b a caps named t
      else if is_digit d then
        (let one = of_char d - 48;
             two = (if t \<noteq> [] \<and> is_digit (hd t) then 10 * one + (of_char (hd t) - 48) else 0)
         in if 1 \<le> two \<and> two \<le> length caps then
              capture caps two @ GetSubstitution m b a caps named (tl t)
            else if 1 \<le> one \<and> one \<le> length caps then
              capture caps one @ GetSubstitution m b a caps named t
            else c # GetSubstitution m b a caps named (d # t))
      else if d = CHR ''<'' \<and> named \<noteq> None \<and> CHR ''>'' \<in> set t then
        (case map_of (the named) (takeWhile (\<lambda>x. x \<noteq> CHR ''>'') t) of
           Some (Some v) \<Rightarrow> v
         | _ \<Rightarrow> [])
        @ GetSubstitution m b a caps named (tl (dropWhile (\<lambda>x. x \<noteq> CHR ''>'') t))
      else c # GetSubstitution m b a caps named (d # t))"
  by pat_completeness auto
termination
proof (relation "measure (\<lambda>(m, b, a, caps, named, t). length t)")
  fix t :: string
  have "length (tl (dropWhile (\<lambda>x. x \<noteq> CHR ''>'') t)) \<le> length t"
    using length_dropWhile_le [of "\<lambda>x. x \<noteq> CHR ''>''" t] by simp
  then show "\<And>m b a caps named c d.
       ((m, b, a, caps, named, tl (dropWhile (\<lambda>x. x \<noteq> CHR ''>'') t)), m, b, a, caps, named, c # d # t)
       \<in> measure (\<lambda>(m, b, a, caps, named, t). length t)"
    by simp
qed simp_all

declare GetSubstitution.simps [simp del]

text \<open>
  \<open>text.replace(pattern, replacement)\<close> without the \<open>g\<close> flag: the first match only, with
  the replacement text read as above.
\<close>

definition String_replace :: "string \<Rightarrow> regexp \<Rightarrow> string \<Rightarrow> string" where
  "String_replace s r replacement =
     (case r s of
        None \<Rightarrow> s
      | Some h \<Rightarrow>
          (let position = min (hit_index h) (length s);
               b = take position s;
               a = drop (position + length (hit_text h)) s
           in b @ GetSubstitution (hit_text h) b a (hit_captures h) (hit_groups h) replacement @ a))"

definition replace_first :: "atom list \<Rightarrow> string \<Rightarrow> string \<Rightarrow> string" where
  "replace_first p repl s = String_replace s (exec_of p) repl"

lemma rx_match_suffix: "rx_match p s = Some r \<Longrightarrow> suffix r s"
proof (induction p s arbitrary: r rule: rx_match.induct)
  case (2 l as s)
  then show ?case
    by (auto split: if_splits intro: suffix_order.trans suffix_drop)
next
  case (4 k as c cs)
  then show ?case
    by (auto split: if_splits intro: suffix_ConsI)
next
  case (5 l as s)
  then show ?case
    by (auto split: if_splits option.splits intro: suffix_order.trans suffix_drop)
next
  case (7 k as c cs)
  then show ?case
    by (auto split: if_splits option.splits intro: suffix_ConsI)
next
  case (9 k as c cs)
  then show ?case
    by (auto split: if_splits intro: suffix_ConsI)
qed simp_all

lemma rx_search_parts: "rx_search p s = Some (b, m, a) \<Longrightarrow> s = b @ m @ a"
proof (induction s arbitrary: b)
  case Nil
  then show ?case
    by (auto dest: rx_match_suffix)
next
  case (Cons c cs)
  show ?case
  proof (cases "rx_match p (c # cs)")
    case None
    with Cons.prems obtain b' where "rx_search p cs = Some (b', m, a)" "b = c # b'"
      by auto
    with Cons.IH show ?thesis by simp
  next
    case (Some r)
    then have "suffix r (c # cs)" by (rule rx_match_suffix)
    then obtain u where u: "c # cs = u @ r" by (auto simp: suffix_def)
    have "b = []" "m = take (length (c # cs) - length r) (c # cs)" "a = r"
      using Some Cons.prems by auto
    moreover have "take (length (c # cs) - length r) (c # cs) = u"
      unfolding u by simp
    ultimately show ?thesis using u by simp
  qed
qed

text \<open>
  \<open>text.replace(pattern, ...)\<close> with the \<open>g\<close> flag: every match, left to right, each
  replaced by what \<open>f\<close> makes of the matched text. After an empty match the search moves
  on by one character.
\<close>

function replace_all :: "atom list \<Rightarrow> (string \<Rightarrow> string) \<Rightarrow> string \<Rightarrow> string" where
  "replace_all p f s =
     (case rx_search p s of
        None \<Rightarrow> s
      | Some (b, m, a) \<Rightarrow>
          if m \<noteq> [] then b @ f m @ replace_all p f a
          else (case a of [] \<Rightarrow> b @ f m | c # cs \<Rightarrow> b @ f m @ c # replace_all p f cs))"
  by pat_completeness auto
termination
proof (relation "measure (\<lambda>(p, f, s). length s)")
  show "wf (measure (\<lambda>(p, f, s). length s))" by simp
next
  fix p :: "atom list" and f :: "string \<Rightarrow> string" and s x2 b y m a
  assume "rx_search p s = Some x2" "(b, y) = x2" "(m, a) = y" "m \<noteq> []"
  then have "s = b @ m @ a" "m \<noteq> []"
    using rx_search_parts [of p s b m a] by auto
  then show "((p, f, a), (p, f, s)) \<in> measure (\<lambda>(p, f, s). length s)"
    by simp
next
  fix p :: "atom list" and f :: "string \<Rightarrow> string" and s x2 b y m a c cs
  assume "rx_search p s = Some x2" "(b, y) = x2" "(m, a) = y" "\<not> m \<noteq> []" "a = c # cs"
  then have "s = b @ m @ a" "a = c # cs"
    using rx_search_parts [of p s b m a] by auto
  then show "((p, f, cs), (p, f, s)) \<in> measure (\<lambda>(p, f, s). length s)"
    by simp
qed

declare replace_all.simps [simp del]

section \<open>The source patcher (components/builder/index.js)\<close>

definition rule_line :: string where
  "rule_line = ''// '' @ concat (replicate 75 [CHR 0xE2, CHR 0x95, CHR 0x90])"

text \<open>
  The three template literals of the source, line by line: each begins with a line break
  and ends with one, so each is a sequence of lines, the first of them empty.
\<close>

definition unlines :: "string list \<Rightarrow> string" where
  "unlines ls = concat (map (\<lambda>l. l @ [CHR 0x0A]) ls)"

definition embeddedCode :: "string list \<Rightarrow> string list \<Rightarrow> string" where
  \<open>embeddedCode embeddedImports embeddedFilesMapping = unlines
     [ [],
       rule_line,
       ''// ATOMCLI EMBEDDED FILES'',
       ''// Generated by AtomCLI Builder'',
       rule_line,
       [],
       join_with [CHR 0x0A] embeddedImports,
       [],
       ''const __embeddedFiles = {'',
       join_with [CHR 0x0A] embeddedFilesMapping,
       ''};'',
       [],
       ''function __getSafePlatform() {'',
       ''  try {'',
       ''    const p = typeof process !== 'undefined' ? process : {};'',
       ''    return { arch: (p.arch || 'x64').toString(), platform: (p.platform || 'linux').toString() };'',
       ''  } catch (e) {'',
       ''    return { arch: 'x64', platform: 'linux' };'',
       ''  }'',
       ''}'',
       [],
       rule_line,
       [] ]\<close>

definition windowsHeader :: "string \<Rightarrow> string" where
  \<open>windowsHeader bn = unlines
     [ [],
       rule_line,
       ''// WINDOWS COMPATIBILITY LAYER'',
       rule_line,
       [],
       ''let __executablePath;'',
       ''if (process.argv[1]) {'',
       ''  const path = require('path');'',
       ''  __executablePath = path.isAbsolute(process.argv[1]) ? process.argv[1] : path.resolve(process.argv[1]);'',
       ''} else {'',
       ''  __executablePath = require('path').join(process.cwd(), '' @ [CHR 0x27] @ bn @ ''.exe');'',
       ''}'',
       [],
       ''const __filename = __executablePath;'',
       ''const __dirname = require('path').dirname(__executablePath);'',
       [],
       ''function __toFileURL(filePath) {'',
       ''  const resolved = require('path').resolve(filePath);'',
       ''  if (process.platform === 'win32') {'',
       ''    return 'file:///' + resolved.replace(/'' @ [CHR 0x5C, CHR 0x5C] @ ''/g, '/');'',
       ''  }'',
       ''  return 'file://' + resolved;'',
       ''}'',
       [],
       rule_line,
       [] ]\<close>

definition SHELL_DETECTION_CODE :: "string" where
  \<open>SHELL_DETECTION_CODE = unlines
     [ [],
       ''// ATOMCLI: Runtime Shell Detection'',
       ''var __atomcli_detectShell = (function() {'',
       ''  var fs = require('fs');'',
       ''  var cp = require('child_process');'',
       ''  return function() {'',
       ''    var env = process.env;'',
       ''    // User preference via env var takes priority'',
       ''    if (env.CLAUDE_SHELL) return env.CLAUDE_SHELL;'',
       ''    if (process.platform === 'win32') {'',
       ''      // Windows: PowerShell Core > PowerShell > cmd'',
       ''      var winShells = ['pwsh.exe', 'powershell.exe', 'cmd.exe'];'',
       ''      for (var i = 0; i < winShells.length; i++) {'',
       ''        try { cp.execSync('where ' + winShells[i], {stdio:'pipe'}); return winShells[i]; } catch(e) {}'',
       ''      }'',
       ''      return 'cmd.exe';'',
       ''    } else {'',
       ''      // Termux detection first'',
       ''      if (fs.existsSync('/data/data/com.termux/files/usr/bin/bash')) {'',
       ''        return '/data/data/com.termux/files/usr/bin/bash';'',
       ''      }'',
       ''      // Unix: check SHELL env'',
       ''      if (env.SHELL && fs.existsSync(env.SHELL)) return env.SHELL;'',
       ''      // Fallback: try common shells'',
       ''      var unixShells = ['/bin/bash', '/bin/zsh', '/bin/sh'];'',
       ''      for (var j = 0; j < unixShells.length; j++) {'',
       ''        if (fs.existsSync(unixShells[j])) return unixShells[j];'',
       ''      }'',
       ''      return '/bin/sh';'',
       ''    }'',
       ''  };'',
       ''})();'' ]\<close>

text \<open>The patterns of the source.\<close>

definition shebang_line :: "atom list" where
  "shebang_line = [Lit ''#!'', Star Dot, Lit [CHR 0x0A]]"

definition shebang_to_newline :: "atom list" where
  "shebang_to_newline = [Lit ''#!'', Star (NoneOf [CHR 0x0A]), Lit [CHR 0x0A]]"

definition use_strict :: "atom list" where
  \<open>use_strict = [One (AnyOf [CHR 0x27, CHR 0x22]), Lit ''use strict'',
                 One (AnyOf [CHR 0x27, CHR 0x22]), Opt '';'']\<close>

definition shellCheckPattern :: "atom list" where
  \<open>shellCheckPattern =
     [Lit ''if(!J){let F="No suitable shell found'', Plus (NoneOf ''}''), Lit ''throw'',
      Plus (NoneOf ''}''), Lit ''}'']\<close>

definition shellCheckReplacement :: string where
  "shellCheckReplacement = ''if(!J){J=__atomcli_detectShell()}''"

text \<open>
  What the patcher throws: an \<open>Error\<close> with its message, an error of the file system, or the
  \<open>SyntaxError\<close> of \<open>new RegExp\<close> with its message.
\<close>

datatype js_error = Error string | FsError fs_error | SyntaxError string

text \<open>
  \<open>new RegExp(source)\<close> belongs to the runtime and is a parameter here: it gives the
  regular expression that the source denotes, or throws a \<open>SyntaxError\<close> where the source
  is no pattern.
\<close>

type_synonym regexp_constructor = "string \<Rightarrow> js_error + regexp"

text \<open>
  The three entry-point patterns. The source of the first has the tool's prefix pasted in
  as it is, so the prefix is read as a piece of a pattern; the other two are literals of
  the source. The array is built before the loop, and a prefix that makes the source no
  pattern ends the patching function there.
\<close>

definition entrypoint_source :: "string \<Rightarrow> string" where
  \<open>entrypoint_source pre =
     ''process'' @ [CHR 0x5C] @ ''.env'' @ [CHR 0x5C] @ ''.'' @ pre @ ''_ENTRYPOINT="cli"''\<close>

definition claude_entrypoint :: "atom list" where
  \<open>claude_entrypoint = [Lit ''process.env.CLAUDE_CODE_ENTRYPOINT="cli"'']\<close>

definition any_entrypoint :: "atom list" where
  \<open>any_entrypoint = [Lit ''process.env.'', Plus Word, Lit ''_ENTRYPOINT="cli"'']\<close>

definition entrypointPatterns :: "regexp_constructor \<Rightarrow> string \<Rightarrow> js_error + regexp list" where
  "entrypointPatterns RegExp pre =
     (case RegExp (entrypoint_source pre) of
        Inl e \<Rightarrow> Inl e
      | Inr r \<Rightarrow> Inr [r, exec_of claude_entrypoint, exec_of any_entrypoint])"

text \<open>
  The loop over the patterns: the first for which \<open>pattern.test(content)\<close> holds is
  replaced, and the loop ends. Where none matches, the content stays as it is, and nothing
  is said.
\<close>

fun replace_first_matching :: "regexp list \<Rightarrow> string \<Rightarrow> string \<Rightarrow> string" where
  "replace_first_matching [] repl content = content"
| "replace_first_matching (pat # pats) repl content =
     (if pat content \<noteq> None then String_replace content pat repl
      else replace_first_matching pats repl content)"

text \<open>\<open>addEmbeddedImports(content, sourceDir)\<close>.\<close>

definition ripgrepFiles :: "(string \<times> string) list" where
  "ripgrepFiles =
     [ (''vendor/ripgrep/arm64-darwin/rg'', ''__embeddedRgDarwinArm64''),
       (''vendor/ripgrep/arm64-linux/rg'', ''__embeddedRgLinuxArm64''),
       (''vendor/ripgrep/x64-darwin/rg'', ''__embeddedRgDarwinX64''),
       (''vendor/ripgrep/x64-linux/rg'', ''__embeddedRgLinuxX64''),
       (''vendor/ripgrep/x64-win32/rg.exe'', ''__embeddedRgWin32'') ]"

definition addEmbeddedImports :: "filesystem \<Rightarrow> string \<Rightarrow> string \<Rightarrow> string" where
  \<open>addEmbeddedImports fs content sourceDir =
     (let present = filter (\<lambda>(p, v). existsSync fs (path_join sourceDir p)) ripgrepFiles;
          yoga = existsSync fs (path_join sourceDir ''yoga.wasm'');
          embeddedImports =
            (if yoga then [''import __embeddedYogaWasm from "./yoga.wasm" with { type: "file" };''] else [])
            @ map (\<lambda>(p, v). ''import '' @ v @ '' from "./'' @ p @ ''" with { type: "file" };'') present;
          embeddedFilesMapping =
            (if yoga then [''  '' @ [CHR 0x27] @ ''yoga.wasm': __embeddedYogaWasm,''] else [])
            @ map (\<lambda>(p, v). ''  '' @ [CHR 0x27] @ p @ [CHR 0x27] @ '': '' @ v @ '','') present;
          code = embeddedCode embeddedImports embeddedFilesMapping
      in case match_start shebang_line content of
           Some (shebang, rest) \<Rightarrow> shebang @ code @ rest
         | None \<Rightarrow> code @ content)\<close>

text \<open>
  \<open>applyWindowsPatches(content, toolConfig)\<close>: the header and the replacements of the POSIX
  idioms, then the entry-point marker. In the two replacements that refer to \<open>$1\<close>,
  the word between the braces, the new text is the matched text with \<open>REM\<close> put before it,
  and the matched text without its first five characters.
\<close>

definition windows_compat :: "string \<Rightarrow> string \<Rightarrow> string" where
  \<open>windows_compat bn content =
     (let c1 = (case match_start shebang_line content of
                  Some (shebang, rest) \<Rightarrow> shebang @ windowsHeader bn @ rest
                | None \<Rightarrow> windowsHeader bn @ content);
          c2 = replace_all [Lit ''import.meta.url''] (\<lambda>m. ''__toFileURL(__filename)'') c1;
          c3 = replace_all [Lit ''"/dev/null"''] (\<lambda>m. ''"NUL"'') c2;
          c4 = replace_all [Lit ''source ${'', Plus Word, Lit ''}''] (\<lambda>m. ''REM '' @ m) c3
      in replace_all [Lit ''eval ${'', Plus Word, Lit ''}''] (\<lambda>m. drop 5 m) c4)\<close>

definition mark_windows :: "regexp_constructor \<Rightarrow> string \<Rightarrow> string \<Rightarrow> js_error + string" where
  \<open>mark_windows RegExp pre content =
     (case entrypointPatterns RegExp pre of
        Inl e \<Rightarrow> Inl e
      | Inr pats \<Rightarrow>
          Inr (replace_first_matching pats
                 (''process.env.'' @ pre @ ''_ENTRYPOINT="cli";process.env.'' @ pre
                    @ ''_WINDOWS_EXECUTABLE="1"'')
                 content))\<close>

definition applyWindowsPatches ::
  "regexp_constructor \<Rightarrow> string \<Rightarrow> tool_config option \<Rightarrow> js_error + string" where
  "applyWindowsPatches RegExp content toolConfig =
     (let bn = or_opt (cfg_binaryName toolConfig) ''cli-tool'';
          pre = or_opt (cfg_envPrefix toolConfig) ''CLI_TOOL''
      in mark_windows RegExp pre (windows_compat bn content))"

text \<open>\<open>applyCommonPatches(content, toolConfig)\<close>, in its four steps.\<close>

definition strip_shebang :: "string \<Rightarrow> string" where
  "strip_shebang content =
     (case match_start shebang_to_newline content of Some (shebang, rest) \<Rightarrow> rest | None \<Rightarrow> content)"

definition mark_bundled :: "regexp_constructor \<Rightarrow> string \<Rightarrow> string \<Rightarrow> js_error + string" where
  \<open>mark_bundled RegExp pre content =
     (case entrypointPatterns RegExp pre of
        Inl e \<Rightarrow> Inl e
      | Inr pats \<Rightarrow>
          Inr (replace_first_matching pats
                 (''process.env.'' @ pre @ ''_ENTRYPOINT="cli";process.env.'' @ pre @ ''_BUNDLED="1"'')
                 content))\<close>

definition inject_shell_detection :: "string \<Rightarrow> string" where
  "inject_shell_detection content =
     (case match_start use_strict content of
        Some (strict, rest) \<Rightarrow> strict @ SHELL_DETECTION_CODE @ rest
      | None \<Rightarrow> SHELL_DETECTION_CODE @ content)"

definition bypass_shell_check :: "string \<Rightarrow> string" where
  "bypass_shell_check content =
     (if rx_test shellCheckPattern content
      then replace_first shellCheckPattern shellCheckReplacement content
      else content)"

definition applyCommonPatches ::
  "regexp_constructor \<Rightarrow> string \<Rightarrow> tool_config option \<Rightarrow> js_error + string" where
  "applyCommonPatches RegExp content toolConfig =
     (let pre = or_opt (cfg_envPrefix toolConfig) ''CLI_TOOL''
      in case mark_bundled RegExp pre (strip_shebang content) of
           Inl e \<Rightarrow> Inl e
         | Inr marked \<Rightarrow> Inr (bypass_shell_check (inject_shell_detection marked)))"

text \<open>\<open>path.basename(entryPoint, '.js')\<close>: the last segment, without the suffix.\<close>

definition basename_js :: "string \<Rightarrow> string" where
  "basename_js p =
     (let b = rev (takeWhile (\<lambda>c. c \<noteq> CHR ''/'') (rev p))
      in if suffix ''.js'' b \<and> b \<noteq> ''.js'' then take (length b - 3) b else b)"

text \<open>
  \<open>prepareSource(sourceDir, targetPlatform, { onStatus, toolConfig })\<close>: the result or the
  exception, the file system after the call, and the messages handed to \<open>onStatus\<close>.
\<close>

definition prepareSource ::
  "regexp_constructor \<Rightarrow> filesystem \<Rightarrow> string \<Rightarrow> string \<Rightarrow> tool_config option
     \<Rightarrow> (js_error + string) \<times> filesystem \<times> string list" where
  "prepareSource RegExp fs sourceDir targetPlatform toolConfig =
     (let entry = or_opt (cfg_entryPoint toolConfig) ''cli.js'';
          cliPath = path_join sourceDir entry
      in if \<not> existsSync fs cliPath then
           (Inl (Error (''CLI source not found at '' @ cliPath)), fs, [])
         else
           (let st1 = [''Reading CLI source ('' @ entry @ '')...''] in
            case readFileSync fs cliPath of
              Inl e \<Rightarrow> (Inl (FsError e), fs, st1)
            | Inr cliContent \<Rightarrow>
                (let st2 = st1 @ [''Adding embedded file imports...''];
                     c1 = addEmbeddedImports fs cliContent sourceDir;
                     st3 = (if targetPlatform = ''windows''
                            then st2 @ [''Applying Windows-specific patches...''] else st2)
                 in case (if targetPlatform = ''windows''
                          then applyWindowsPatches RegExp c1 toolConfig else Inr c1) of
                      Inl e \<Rightarrow> (Inl e, fs, st3)
                    | Inr c2 \<Rightarrow>
                        (let st4 = st3 @ [''Applying common patches...''] in
                         case applyCommonPatches RegExp c2 toolConfig of
                           Inl e \<Rightarrow> (Inl e, fs, st4)
                         | Inr c3 \<Rightarrow>
                             (let baseName = basename_js entry;
                                  preparedPath = path_join sourceDir
                                    (if targetPlatform = ''windows''
                                     then baseName @ ''-windows-prepared.js''
                                     else baseName @ ''-prepared.js'')
                              in case writeFileSync fs preparedPath c3 of
                                   Inl e \<Rightarrow> (Inl (FsError e), fs, st4)
                                 | Inr fs' \<Rightarrow>
                                     (Inr preparedPath, fs',
                                      st4 @ [''Prepared source written to '' @ preparedPath]))))))"

text \<open>
  Two checks on texts, for the proofs: \<open>starts_like l t\<close> says that \<open>l\<close> and \<open>t\<close> agree as far
  as both go, and \<open>no_start l h\<close> that \<open>l\<close> cannot begin anywhere inside \<open>h\<close>, whatever
  follows \<open>h\<close>.
\<close>

fun starts_like :: "string \<Rightarrow> string \<Rightarrow> bool" where
  "starts_like [] t = True"
| "starts_like (a # l) [] = True"
| "starts_like (a # l) (b # t) = (if a = b then starts_like l t else False)"

fun no_start :: "string \<Rightarrow> string \<Rightarrow> bool" where
  "no_start l [] = True"
| "no_start l (b # t) = (if starts_like l (b # t) then False else no_start l t)"

text \<open>A package with a plain entry point, and one whose entry point has all the marks.\<close>

definition plain_source :: string where
  "plain_source = ''console.log(1)''"

definition marked_source :: string where
  \<open>marked_source = ''#!/usr/bin/env node'' @ [CHR 0x0A]
     @ ''process.env.CLAUDE_CODE_ENTRYPOINT="cli";''
     @ ''if(!J){let F="No suitable shell found. Install bash";throw new Error(F)}run()''\<close>

definition source_fs :: filesystem where
  "source_fs =
     [ ''core'' \<mapsto> Dir,
       ''core/claude-code'' \<mapsto> Dir,
       ''core/claude-code/package'' \<mapsto> Dir,
       ''core/claude-code/package/cli.js'' \<mapsto> File marked_source,
       ''core/claude-code/package/yoga.wasm'' \<mapsto> File ''wasm'' ]"

text \<open>
  A constructor for the examples. It knows a part of the pattern language: characters that
  stand for themselves, escaped syntax characters and \<open>\w\<close>, and the repetitions \<open>*\<close>, \<open>+\<close>
  and \<open>?\<close> of one of these. What it accepts, it matches as JavaScript does. Of the syntax
  errors it knows the backslash at the end, the repetition of nothing, the closing
  parenthesis that nothing opened and the group that nothing closes, with the messages of
  Node. On any other source it gives up with an error of its own.
\<close>

definition syntax_character :: "char \<Rightarrow> bool" where
  "syntax_character c = (c \<in> set ''^$.*+?()[]{}|'' \<or> c = CHR 0x5C)"

datatype token = Chr cclass | Rep char | Paren char | Trailing | Other

definition token_of :: "char \<Rightarrow> token" where
  "token_of c =
     (if c = CHR 0x5C then Trailing
      else if c \<in> set ''*+?'' then Rep c
      else if c \<in> set ''()'' then Paren c
      else if syntax_character c \<or> 128 \<le> (of_char c :: nat) then Other
      else Chr (AnyOf [c]))"

definition escape_token :: "char \<Rightarrow> token" where
  "escape_token d =
     (if d = CHR ''w'' then Chr Word
      else if syntax_character d then Chr (AnyOf [d])
      else Other)"

fun tokens :: "string \<Rightarrow> token list" where
  "tokens [] = []"
| "tokens [c] = [token_of c]"
| "tokens (c # d # cs) =
     (if c = CHR 0x5C then escape_token d # tokens cs else token_of c # tokens (d # cs))"

fun is_chr :: "token \<Rightarrow> bool" where
  "is_chr (Chr k) = True"
| "is_chr t = False"

definition invalid_regexp :: "string \<Rightarrow> string \<Rightarrow> js_error" where
  "invalid_regexp src why = SyntaxError (''Invalid regular expression: /'' @ src @ ''/: '' @ why)"

definition not_covered :: js_error where
  "not_covered = Error ''a pattern outside the part that the example constructor knows''"

definition repeat :: "cclass \<Rightarrow> char \<Rightarrow> atom option" where
  "repeat k q =
     (if q = CHR ''*'' then Some (Star k)
      else if q = CHR ''+'' then Some (Plus k)
      else (case k of AnyOf [c] \<Rightarrow> Some (Opt [c]) | _ \<Rightarrow> None))"

fun assemble :: "string \<Rightarrow> token list \<Rightarrow> js_error + atom list" where
  "assemble src [] = Inr []"
| "assemble src (Trailing # ts) = Inl (invalid_regexp src (CHR 0x5C # '' at end of pattern''))"
| "assemble src (Other # ts) = Inl not_covered"
| "assemble src (Rep q # ts) = Inl (invalid_regexp src ''Nothing to repeat'')"
| "assemble src (Paren p # ts) =
     (if p = CHR '')'' then Inl (invalid_regexp src (''Unmatched '' @ [CHR 0x27] @ '')'' @ [CHR 0x27]))
      else if list_all is_chr ts then Inl (invalid_regexp src ''Unterminated group'')
      else Inl not_covered)"
| "assemble src (Chr k # Rep q # Rep q' # ts) =
     (if q' = CHR ''?'' then Inl not_covered
      else Inl (invalid_regexp src ''Nothing to repeat''))"
| "assemble src (Chr k # Rep q # ts) =
     (case repeat k q of
        None \<Rightarrow> Inl not_covered
      | Some a \<Rightarrow> map_sum id ((#) a) (assemble src ts))"
| "assemble src (Chr k # ts) = map_sum id ((#) (One k)) (assemble src ts)"

definition example_RegExp :: regexp_constructor where
  "example_RegExp src = map_sum id exec_of (assemble src (tokens src))"

text \<open>A tool whose prefix is no piece of a pattern.\<close>

definition unescaped_config :: "tool_config option" where
  "unescaped_config =
     Some \<lparr> name = Some ''A tool'',
            build = Some \<lparr> entryPoint = None, envPrefix = Some ''A('',
                            binaryName = Some ''a-tool'' \<rparr> \<rparr>"

section \<open>The build orchestrator (components/builder/index.js)\<close>











section \<open>The archive fetcher and the npm download (components/downloader/index.js)\<close>

text \<open>
  \<open>downloadFile(url, destPath, onProgress)\<close> installs handlers and returns a promise. What
  the request for the URL meets is a sequence of events: the response with its status
  code, status message and \<open>Location\<close> header, chunks of the body, the write stream
  finishing or failing, the request failing, the socket timing out. The model runs the
  handlers over the events in their order. After a redirect the events are those of the
  new request. Progress reports change nothing and are left out.
\<close>

datatype http_event =
    Response nat string "string option"
  | Data string
  | Finish
  | StreamError string
  | RequestError string
  | Timeout

datatype settled = Resolved string | Rejected string

text \<open>
  The file system, whether the write stream is open, the promise (settled at most once),
  and an exception that escaped a handler.
\<close>

record download_state =
  dl_fs :: filesystem
  stream_open :: bool
  promise :: "settled option"
  uncaught :: "fs_error option"

definition settle :: "settled \<Rightarrow> download_state \<Rightarrow> download_state" where
  "settle v s = (if promise s = None then s\<lparr> promise := Some v \<rparr> else s)"

definition dirname :: "string \<Rightarrow> string" where
  "dirname p =
     (if ancestors p = [] then (if p \<noteq> [] \<and> hd p = CHR ''/'' then ''/'' else ''.'')
      else last (ancestors p))"

text \<open>\<open>fs.unlink(destPath, () => {})\<close>: the file goes, and a failure is ignored.\<close>

definition unlink_quietly :: "filesystem \<Rightarrow> string \<Rightarrow> filesystem" where
  "unlink_quietly fs p = (case unlinkSync fs p of Inl e \<Rightarrow> fs | Inr fs' \<Rightarrow> fs')"

fun on_event :: "string \<Rightarrow> download_state \<Rightarrow> http_event \<Rightarrow> download_state" where
  "on_event destPath s (Response statusCode statusMessage location) =
     (if 300 \<le> statusCode \<and> statusCode < 400 \<and> location \<noteq> None \<and> location \<noteq> Some [] then s
      else if statusCode \<noteq> 200 then
        settle (Rejected (''HTTP '' @ nat_str statusCode @ '': '' @ statusMessage)) s
      else
        (let dir = dirname destPath in
         case (if \<not> existsSync (dl_fs s) dir then mkdirSync_recursive (dl_fs s) dir
               else Inr (dl_fs s)) of
           Inl e \<Rightarrow> s\<lparr> uncaught := Some e \<rparr>
         | Inr fs1 \<Rightarrow>
             s\<lparr> dl_fs := (case writeFileSync fs1 destPath [] of Inl e \<Rightarrow> fs1 | Inr fs2 \<Rightarrow> fs2),
                stream_open := True \<rparr>))"
| "on_event destPath s (Data chunk) =
     (if stream_open s then
        (case dl_fs s destPath of
           Some (File c) \<Rightarrow> s\<lparr> dl_fs := (dl_fs s)(destPath \<mapsto> File (c @ chunk)) \<rparr>
         | _ \<Rightarrow> s)
      else s)"
| "on_event destPath s Finish =
     (if stream_open s then settle (Resolved destPath) (s\<lparr> stream_open := False \<rparr>) else s)"
| "on_event destPath s (StreamError msg) =
     (if stream_open s then
        settle (Rejected msg) (s\<lparr> dl_fs := unlink_quietly (dl_fs s) destPath, stream_open := False \<rparr>)
      else s)"
| "on_event destPath s (RequestError msg) = settle (Rejected msg) s"
| "on_event destPath s Timeout = settle (Rejected ''Download timeout'') s"

definition downloadFile :: "filesystem \<Rightarrow> string \<Rightarrow> http_event list \<Rightarrow> download_state" where
  "downloadFile fs destPath events =
     foldl (\<lambda>s ev. if uncaught s \<noteq> None then s else on_event destPath s ev)
       \<lparr> dl_fs = fs, stream_open = False, promise = None, uncaught = None \<rparr> events"

text \<open>
  What \<open>downloadFromNpm\<close> meets outside the process: the registry's answer for a package and
  version, the events of a GET, the SHA-1 digest in hexadecimal, the extraction of a
  tarball into a directory, the JSON codec and the clock.
\<close>

record version_info =
  vi_version :: string
  vi_tarball :: "string option"
  vi_shasum :: "string option"

record npm_env =
  getNpmPackageVersionInfo :: "string \<Rightarrow> string option \<Rightarrow> js_error + version_info"
  http_get :: "string \<Rightarrow> http_event list"
  sha1_hex :: "string \<Rightarrow> string"
  extractTarball :: "string \<Rightarrow> string \<Rightarrow> filesystem \<Rightarrow> js_error + filesystem"
  json :: json_codec
  now_iso :: string

text \<open>How an awaited call ends: it returns, it throws, the process dies, or nothing settles.\<close>

datatype 'a completion = Returned 'a | Thrown js_error | Crashed fs_error | Pending

text \<open>The object returned; its \<open>tarballPath\<close> is always \<open>null\<close>, and the listing of files is left out.\<close>

record npm_download =
  d_name :: string
  d_version :: string
  d_extractDir :: string
  d_skipped :: bool
  d_reason :: "string option"

definition to_lower :: "string \<Rightarrow> string" where
  "to_lower s = map (\<lambda>c. if 65 \<le> (of_char c :: nat) \<and> (of_char c :: nat) \<le> 90
                           then char_of ((of_char c :: nat) + 32) else c) s"

text \<open>\<open>packageName.replace('/', '-')\<close>: the first slash only.\<close>

fun replace_slash :: "string \<Rightarrow> string" where
  "replace_slash [] = []"
| "replace_slash (c # cs) = (if c = CHR ''/'' then CHR ''-'' # cs else c # replace_slash cs)"

text \<open>\<open>verifyChecksum(filePath, expectedHash, 'sha1')\<close>; reading a missing file rejects.\<close>

definition verifyChecksum :: "npm_env \<Rightarrow> filesystem \<Rightarrow> string \<Rightarrow> string \<Rightarrow> js_error + bool" where
  "verifyChecksum env fs filePath expectedHash =
     (case readFileSync fs filePath of
        Inl e \<Rightarrow> Inl (FsError e)
      | Inr content \<Rightarrow> Inr (to_lower (sha1_hex env content) = to_lower expectedHash))"

definition downloadFromNpm ::
  "npm_env \<Rightarrow> filesystem \<Rightarrow> string \<Rightarrow> string \<Rightarrow> string option \<Rightarrow> bool
     \<Rightarrow> npm_download completion \<times> filesystem" where
  "downloadFromNpm env fs packageName destDir version force =
     (case getNpmPackageVersionInfo env packageName version of
        Inl e \<Rightarrow> (Thrown e, fs)
      | Inr pkgVersionInfo \<Rightarrow>
          (let targetVersion = vi_version pkgVersionInfo;
               remoteShasum = vi_shasum pkgVersionInfo;
               tarballUrl = or_opt (vi_tarball pkgVersionInfo) []
           in if tarballUrl = [] then
                (Thrown (Error (''No tarball found for '' @ packageName @ ''@'' @ targetVersion)), fs)
              else
                (let cacheCheck = checkIfUpToDate (json env) fs destDir packageName
                                    (JStr targetVersion) (opt_val remoteShasum);
                     extractDir = path_join destDir ''package''
                 in if \<not> force \<and> upToDate cacheCheck then
                      (Returned \<lparr> d_name = packageName, d_version = targetVersion,
                                  d_extractDir = extractDir, d_skipped = True,
                                  d_reason = Some (reason cacheCheck) \<rparr>, fs)
                    else
                      (let tarballPath = path_join destDir
                             (replace_slash packageName @ ''-'' @ targetVersion @ ''.tgz'');
                           dl = downloadFile fs tarballPath (http_get env tarballUrl);
                           fs1 = dl_fs dl
                       in case uncaught dl of
                            Some e \<Rightarrow> (Crashed e, fs1)
                          | None \<Rightarrow>
                         (case promise dl of
                            None \<Rightarrow> (Pending, fs1)
                          | Some (Rejected msg) \<Rightarrow> (Thrown (Error msg), fs1)
                          | Some (Resolved p) \<Rightarrow>
                              (case (if or_opt remoteShasum [] \<noteq> []
                                     then verifyChecksum env fs1 tarballPath (or_opt remoteShasum [])
                                     else Inr True) of
                                 Inl e \<Rightarrow> (Thrown e, fs1)
                               | Inr isValid \<Rightarrow>
                                   if \<not> isValid then
                                     (case unlinkSync fs1 tarballPath of
                                        Inl e \<Rightarrow> (Thrown (FsError e), fs1)
                                      | Inr fs2 \<Rightarrow>
                                          (Thrown (Error (''Checksum verification failed for ''
                                               @ packageName @ ''@'' @ targetVersion)), fs2))
                                   else
                                     (let fs2 = (if existsSync fs1 extractDir
                                                 then rmSync_recursive fs1 extractDir else fs1)
                                      in case extractTarball env tarballPath destDir fs2 of
                                           Inl e \<Rightarrow> (Thrown e, fs2)
                                         | Inr fs3 \<Rightarrow>
                                             (let fs4 = writeManifest (json env) fs3 destDir
                                                    (manifest_object
                                                       \<lparr> m_packageName = packageName,
                                                         m_version = targetVersion,
                                                         m_shasum = remoteShasum,
                                                         m_tarball = tarballUrl,
                                                         m_downloadedAt = now_iso env,
                                                         m_extractDir = extractDir \<rparr>);
                                                  fs5 = unlink_quietly fs4 tarballPath
                                              in if \<not> existsSync fs5 extractDir then
                                                   (Thrown (FsError ENOENT), fs5)
                                                 else
                                                   (Returned \<lparr> d_name = packageName,
                                                       d_version = targetVersion,
                                                       d_extractDir = extractDir,
                                                       d_skipped = False,
                                                       d_reason = None \<rparr>, fs5)))))))))"

text \<open>
  A registry that offers Claude Code 2.0.76, and a server whose tarball does not have the
  digest the registry promises. The digest function of the example sends every content to
  the same forty digits.
\<close>

definition claude_2_0_76 :: version_info where
  "claude_2_0_76 = \<lparr> vi_version = ''2.0.76'',
     vi_tarball = Some ''https://registry.npmjs.org/@anthropic-ai/claude-code/-/claude-code-2.0.76.tgz'',
     vi_shasum = Some ''9B2F0C6D1E4B5A6978C0D1E2F3A4B5C6D7E8F902'' \<rparr>"

definition corrupt_npm_env :: npm_env where
  "corrupt_npm_env =
     \<lparr> getNpmPackageVersionInfo = (\<lambda>p v. Inr claude_2_0_76),
       http_get = (\<lambda>u. [Response 200 ''OK'' None, Data ''not the '', Data ''tarball'', Finish]),
       sha1_hex = (\<lambda>c. replicate 40 (CHR ''0'')),
       extractTarball = (\<lambda>tarPath destDir fs. Inr fs),
       json = example_codec,
       now_iso = ''2026-01-04T08:00:00.000Z'' \<rparr>"

section \<open>Properties of the registry model\<close>

lemma map_of_map_entries:
  "map_of (map (\<lambda>(k, v). (k, f k v)) xs) k = map_option (f k) (map_of xs k)"
  by (induction xs) auto

lemma gen_keys: "map fst (generateBuildTargets tid cfg) = map fst BUILD_TARGET_TEMPLATES"
  by (simp add: generateBuildTargets_def Let_def case_prod_unfold o_def)


lemma gen_lookup:
  "map_of (generateBuildTargets tid cfg) i =
     map_option (\<lambda>T. template.extend T (build_target.fields (or_opt (cfg_binaryName cfg) tid @ ''-'' @ i @ extension T)))
       (map_of BUILD_TARGET_TEMPLATES i)"
  unfolding generateBuildTargets_def Let_def or_str_def
  by (simp add: map_of_map_entries)


lemma record_sel_simps:
  "output (template.extend T (build_target.fields x)) = x"
  "template.truncate (template.extend T (build_target.fields x)) = T"
  "platform (template.extend T (build_target.fields x)) = platform T"
  "arch (template.extend T (build_target.fields x)) = arch T"
  "variant (template.extend T (build_target.fields x)) = variant T"
  by (simp_all add: template.defs build_target.defs)



lemma find_unique:
  assumes "x \<in> set xs" "P x" "\<forall>y\<in>set xs. P y \<longrightarrow> y = x"
  shows "find P xs = Some x"
proof (cases "find P xs")
  case None
  then show ?thesis using assms(1,2) by (simp add: find_None_iff)
next
  case (Some y)
  then have "y \<in> set xs" "P y"
    by (auto simp: find_Some_iff)
  then show ?thesis using assms(3) Some by simp
qed

lemma find_none: "(\<forall>y\<in>set xs. \<not> P y) \<Longrightarrow> find P xs = None"
  by (induction xs) auto

lemma BUILD_TARGETS_triples:
  "distinct (map (\<lambda>(i, t). (platform t, arch t, variant t)) BUILD_TARGETS)"
proof -
  have "map (\<lambda>(i, t). (platform t, arch t, variant t)) BUILD_TARGETS =
        map (\<lambda>(i, t). (platform t, arch t, variant t)) BUILD_TARGET_TEMPLATES"
    by (simp add: BUILD_TARGETS_def generateBuildTargets_def Let_def case_prod_unfold o_def
        record_sel_simps)
  then show ?thesis
    by (simp add: BUILD_TARGET_TEMPLATES_def tmpl_def)
qed

lemma BUILD_TARGETS_ids: "(i, t) \<in> set BUILD_TARGETS \<Longrightarrow> i \<noteq> []"
proof -
  assume "(i, t) \<in> set BUILD_TARGETS"
  then have "i \<in> set (map fst BUILD_TARGETS)"
    by force
  then have "i \<in> set (map fst BUILD_TARGET_TEMPLATES)"
    by (simp only: BUILD_TARGETS_def gen_keys)
  then show "i \<noteq> []" by (auto simp: BUILD_TARGET_TEMPLATES_def)
qed

lemma win_x64_target: "\<exists>t. (''windows-x64'', t) \<in> set BUILD_TARGETS \<and> platform t = ''windows''
   \<and> arch t = ''x64'' \<and> variant t = ''standard''"
proof -
  have "map_of BUILD_TARGETS ''windows-x64'' =
     map_option (\<lambda>T. template.extend T (build_target.fields
        (or_opt (cfg_binaryName (Some \<lparr> name = None,
             build = Some \<lparr> entryPoint = None, envPrefix = None,
                             binaryName = Some ''claude-code'' \<rparr> \<rparr>)) ''claude-code'' @ ''-'' @ ''windows-x64'' @ extension T)))
       (map_of BUILD_TARGET_TEMPLATES ''windows-x64'')"
    unfolding BUILD_TARGETS_def by (rule gen_lookup)
  also have "map_of BUILD_TARGET_TEMPLATES ''windows-x64'' =
      Some (tmpl ''bun-windows-x64'' ''windows'' ''x64'' ''standard'' ''.exe'')"
    by (simp add: BUILD_TARGET_TEMPLATES_def)
  finally show ?thesis
    by (auto dest!: map_of_SomeD simp: record_sel_simps tmpl_def)
qed

lemma getCurrentTarget_match:
  assumes mem: "(i, t) \<in> set BUILD_TARGETS" and p: "platform t = host_platform h"
    and a: "arch t = process_arch h" and v: "variant t = ''standard''"
  shows "getCurrentTarget h = i"
proof -
  define key :: "string \<times> build_target \<Rightarrow> string \<times> string \<times> string"
    where "key = (\<lambda>(i, t). (platform t, arch t, variant t))"
  define P :: "string \<times> build_target \<Rightarrow> bool"
    where "P = (\<lambda>(i, config). platform config = host_platform h \<and> arch config = process_arch h
                     \<and> variant config = ''standard'')"
  have inj: "inj_on key (set BUILD_TARGETS)"
    using BUILD_TARGETS_triples unfolding key_def by (simp only: distinct_map)
  have Pit: "P (i, t)"
    by (simp add: P_def p a v)
  have uniq: "\<forall>y\<in>set BUILD_TARGETS. P y \<longrightarrow> y = (i, t)"
  proof (intro ballI impI)
    fix y assume y: "y \<in> set BUILD_TARGETS" and Py: "P y"
    obtain j u where yu: "y = (j, u)" by (cases y)
    have k: "key y = key (i, t)"
      using Py by (simp add: yu P_def key_def p a v)
    show "y = (i, t)"
      using inj k y mem by (rule inj_onD)
  qed
  have "find P BUILD_TARGETS = Some (i, t)"
    using mem Pit uniq by (rule find_unique)
  moreover have "i \<noteq> []"
    using mem by (rule BUILD_TARGETS_ids)
  ultimately show ?thesis
    by (simp add: getCurrentTarget_def or_str_def P_def)
qed

text \<open>
  Claim C8. \<open>getCurrentTarget\<close> maps the host operating system to \<open>windows\<close> (for
  \<open>win32\<close>), \<open>macos\<close> (for \<open>darwin\<close>) or \<open>linux\<close> (for anything else); it returns the
  id of the default target whose platform and architecture are the host's and whose
  variant is \<open>standard\<close>, and \<open>linux-x64\<close> when no target matches. On a Windows x64 host
  the result is \<open>windows-x64\<close>, which begins with \<open>windows-\<close>.
\<close>

theorem getCurrentTarget_selects:
  "host_platform h \<in> {''windows'', ''macos'', ''linux''} \<and>
   (process_platform h = ''win32'' \<longrightarrow> host_platform h = ''windows'') \<and>
   (process_platform h = ''darwin'' \<longrightarrow> host_platform h = ''macos'') \<and>
   (process_platform h \<noteq> ''win32'' \<and> process_platform h \<noteq> ''darwin'' \<longrightarrow> host_platform h = ''linux'') \<and>
   (\<forall>i t. (i, t) \<in> set BUILD_TARGETS \<and> platform t = host_platform h \<and> arch t = process_arch h
        \<and> variant t = ''standard'' \<longrightarrow> getCurrentTarget h = i) \<and>
   ((\<forall>(i, t)\<in>set BUILD_TARGETS. \<not> (platform t = host_platform h \<and> arch t = process_arch h
        \<and> variant t = ''standard'')) \<longrightarrow> getCurrentTarget h = ''linux-x64'') \<and>
   (process_platform h = ''win32'' \<and> process_arch h = ''x64'' \<longrightarrow>
      getCurrentTarget h = ''windows-x64'' \<and> prefix ''windows-'' (getCurrentTarget h))"
proof (intro conjI)
  show "host_platform h \<in> {''windows'', ''macos'', ''linux''}"
    by (simp add: host_platform_def)
  show "process_platform h = ''win32'' \<longrightarrow> host_platform h = ''windows''"
    by (simp add: host_platform_def)
  show "process_platform h = ''darwin'' \<longrightarrow> host_platform h = ''macos''"
    by (simp add: host_platform_def)
  show "process_platform h \<noteq> ''win32'' \<and> process_platform h \<noteq> ''darwin'' \<longrightarrow> host_platform h = ''linux''"
    by (simp add: host_platform_def)
  show "\<forall>i t. (i, t) \<in> set BUILD_TARGETS \<and> platform t = host_platform h \<and> arch t = process_arch h
        \<and> variant t = ''standard'' \<longrightarrow> getCurrentTarget h = i"
    using getCurrentTarget_match by blast
  show "(\<forall>(i, t)\<in>set BUILD_TARGETS. \<not> (platform t = host_platform h \<and> arch t = process_arch h
        \<and> variant t = ''standard'')) \<longrightarrow> getCurrentTarget h = ''linux-x64''"
  proof
    assume "\<forall>(i, t)\<in>set BUILD_TARGETS. \<not> (platform t = host_platform h \<and> arch t = process_arch h
        \<and> variant t = ''standard'')"
    then have "find (\<lambda>(i, config). platform config = host_platform h \<and> arch config = process_arch h
                     \<and> variant config = ''standard'') BUILD_TARGETS = None"
      by (intro find_none) auto
    then show "getCurrentTarget h = ''linux-x64''" by (simp add: getCurrentTarget_def)
  qed
  show "process_platform h = ''win32'' \<and> process_arch h = ''x64'' \<longrightarrow>
      getCurrentTarget h = ''windows-x64'' \<and> prefix ''windows-'' (getCurrentTarget h)"
  proof
    assume a: "process_platform h = ''win32'' \<and> process_arch h = ''x64''"
    obtain t where t: "(''windows-x64'', t) \<in> set BUILD_TARGETS" "platform t = ''windows''"
      "arch t = ''x64''" "variant t = ''standard''"
      using win_x64_target by blast
    have "getCurrentTarget h = ''windows-x64''"
      using t a by (intro getCurrentTarget_match [of _ t]) (simp_all add: host_platform_def)
    then show "getCurrentTarget h = ''windows-x64'' \<and> prefix ''windows-'' (getCurrentTarget h)"
      by simp
  qed
qed

theorem getCurrentTarget_selects_witness:
  "process_platform windows_x64_host = ''win32'' \<and> process_arch windows_x64_host = ''x64'' \<and>
   host_platform windows_x64_host = ''windows'' \<and>
   getCurrentTarget windows_x64_host = ''windows-x64'' \<and>
   prefix ''windows-'' (getCurrentTarget windows_x64_host)"
  using getCurrentTarget_selects [of windows_x64_host]
  by (simp add: windows_x64_host_def)

section \<open>Properties of the manifest cache\<close>

lemma reasons_distinct:
  "distinct [''No local manifest found'',
     ''Different package (local: '' @ a @ '', remote: '' @ b @ '')'',
     ''Version mismatch (local: '' @ c @ '', remote: '' @ d @ '')'',
     ''Checksum mismatch (package may have been republished)'',
     ''Extracted files missing'',
     ''Local version matches remote'']"
  by simp

text \<open>
  Claim C1. For every destination directory, package name, remote version and remote
  shasum, \<open>checkIfUpToDate\<close> answers \<open>upToDate = true\<close> if and only if a manifest exists
  (\<open>readManifest\<close> returns a value that is not \<open>null\<close> nor otherwise false), its package
  name is the requested one, its version is the remote version, the two shasums agree
  (one of them is absent, that is \<open>undefined\<close>, \<open>null\<close> or empty, or they are equal), and the
  \<open>package\<close> directory under the destination exists. The first condition that fails, in
  this order, gives \<open>upToDate = false\<close> with its own reason; the five reasons and the reason
  of success are pairwise different strings whatever is interpolated in them.
\<close>

theorem checkIfUpToDate_conjunction:
  fixes js fs destDir packageName remoteVersion remoteShasum
  defines "m \<equiv> readManifest js fs destDir"
    and "r \<equiv> checkIfUpToDate js fs destDir packageName remoteVersion remoteShasum"
  defines "same_package \<equiv> strict_eq (get_prop m ''packageName'') (JStr packageName)"
    and "same_version \<equiv> strict_eq (get_prop m ''version'') remoteVersion"
    and "shasum_agrees \<equiv> \<not> truthy (get_prop m ''shasum'') \<or> \<not> truthy remoteShasum \<or>
           strict_eq (get_prop m ''shasum'') remoteShasum"
    and "extracted \<equiv> existsSync fs (path_join destDir ''package'')"
  shows
    "(upToDate r \<longleftrightarrow> truthy m \<and> same_package \<and> same_version \<and> shasum_agrees \<and> extracted) \<and>
     (\<not> truthy m \<longrightarrow> \<not> upToDate r \<and> reason r = ''No local manifest found'') \<and>
     (truthy m \<and> \<not> same_package \<longrightarrow> \<not> upToDate r \<and>
        reason r = ''Different package (local: '' @ String_of (get_prop m ''packageName'')
                     @ '', remote: '' @ packageName @ '')'') \<and>
     (truthy m \<and> same_package \<and> \<not> same_version \<longrightarrow> \<not> upToDate r \<and>
        reason r = ''Version mismatch (local: '' @ String_of (get_prop m ''version'')
                     @ '', remote: '' @ String_of remoteVersion @ '')'') \<and>
     (truthy m \<and> same_package \<and> same_version \<and> \<not> shasum_agrees \<longrightarrow> \<not> upToDate r \<and>
        reason r = ''Checksum mismatch (package may have been republished)'') \<and>
     (truthy m \<and> same_package \<and> same_version \<and> shasum_agrees \<and> \<not> extracted \<longrightarrow> \<not> upToDate r \<and>
        reason r = ''Extracted files missing'') \<and>
     (upToDate r \<longrightarrow> reason r = ''Local version matches remote'') \<and>
     (\<forall>a b c d. distinct [''No local manifest found'',
        ''Different package (local: '' @ a @ '', remote: '' @ b @ '')'',
        ''Version mismatch (local: '' @ c @ '', remote: '' @ d @ '')'',
        ''Checksum mismatch (package may have been republished)'',
        ''Extracted files missing'',
        ''Local version matches remote''])"
proof -
  have r: "r = checkIfUpToDate js fs destDir packageName remoteVersion remoteShasum"
    by (simp add: r_def)
  have 1: "upToDate r \<longleftrightarrow> truthy m \<and> same_package \<and> same_version \<and> shasum_agrees \<and> extracted"
    unfolding r checkIfUpToDate_def m_def same_package_def same_version_def shasum_agrees_def
      extracted_def
    by (simp add: Let_def)
  have 2: "\<not> truthy m \<longrightarrow> \<not> upToDate r \<and> reason r = ''No local manifest found''"
    unfolding r checkIfUpToDate_def m_def by (simp add: Let_def)
  have 3: "truthy m \<and> \<not> same_package \<longrightarrow> \<not> upToDate r \<and>
        reason r = ''Different package (local: '' @ String_of (get_prop m ''packageName'')
                     @ '', remote: '' @ packageName @ '')''"
    unfolding r checkIfUpToDate_def m_def same_package_def by (simp add: Let_def)
  have 4: "truthy m \<and> same_package \<and> \<not> same_version \<longrightarrow> \<not> upToDate r \<and>
        reason r = ''Version mismatch (local: '' @ String_of (get_prop m ''version'')
                     @ '', remote: '' @ String_of remoteVersion @ '')''"
    unfolding r checkIfUpToDate_def m_def same_package_def same_version_def
    by (simp add: Let_def)
  have 5: "truthy m \<and> same_package \<and> same_version \<and> \<not> shasum_agrees \<longrightarrow> \<not> upToDate r \<and>
        reason r = ''Checksum mismatch (package may have been republished)''"
    unfolding r checkIfUpToDate_def m_def same_package_def same_version_def shasum_agrees_def
    by (simp add: Let_def)
  have 6: "truthy m \<and> same_package \<and> same_version \<and> shasum_agrees \<and> \<not> extracted \<longrightarrow> \<not> upToDate r \<and>
        reason r = ''Extracted files missing''"
    unfolding r checkIfUpToDate_def m_def same_package_def same_version_def shasum_agrees_def
      extracted_def
    by (auto simp: Let_def)
  have 7: "upToDate r \<longrightarrow> reason r = ''Local version matches remote''"
    unfolding r checkIfUpToDate_def by (simp add: Let_def)
  show ?thesis
    using 1 2 3 4 5 6 7 reasons_distinct by blast
qed

lemma cached_manifest: "readManifest example_codec cached_fs ''core/claude-code'' = claude_manifest"
  by code_simp

theorem checkIfUpToDate_conjunction_witness:
  "truthy (readManifest example_codec cached_fs ''core/claude-code'') \<and>
   strict_eq (get_prop (readManifest example_codec cached_fs ''core/claude-code'') ''packageName'')
     (JStr ''@anthropic-ai/claude-code'') \<and>
   \<not> strict_eq (get_prop (readManifest example_codec cached_fs ''core/claude-code'') ''version'')
     (JStr ''2.0.76'') \<and>
   \<not> upToDate (checkIfUpToDate example_codec cached_fs ''core/claude-code''
        ''@anthropic-ai/claude-code'' (JStr ''2.0.76'') (JStr ''3f2a9c0d1e4b5a6978c0d1e2f3a4b5c6d7e8f901'')) \<and>
   reason (checkIfUpToDate example_codec cached_fs ''core/claude-code''
        ''@anthropic-ai/claude-code'' (JStr ''2.0.76'') (JStr ''3f2a9c0d1e4b5a6978c0d1e2f3a4b5c6d7e8f901''))
     = ''Version mismatch (local: 2.0.75, remote: 2.0.76)''"
proof -
  have m: "readManifest example_codec cached_fs ''core/claude-code'' = claude_manifest"
    by code_simp
  show ?thesis
    using checkIfUpToDate_conjunction [of example_codec cached_fs "''core/claude-code''"
        "''@anthropic-ai/claude-code''" "JStr ''2.0.76''" "JStr ''3f2a9c0d1e4b5a6978c0d1e2f3a4b5c6d7e8f901''"]
    unfolding m by (simp add: claude_manifest_def manifest_object_def claude_download_def opt_val_def)
qed

lemma ancestors_shorter: "q \<in> set (ancestors p) \<Longrightarrow> length q < length p"
  by (auto simp: ancestors_def)

lemma ancestors_join:
  assumes "CHR ''/'' \<notin> set n"
  shows "ancestors (d @ CHR ''/'' # n) = (if d = [] then [] else ancestors d @ [d])"
proof -
  let ?p = "d @ CHR ''/'' # n"
  have len: "length ?p = length d + 1 + length n" by simp
  have tail: "filter (\<lambda>i. ?p ! i = CHR ''/'') [Suc (length d)..<length ?p] = []"
  proof -
    have "\<forall>i\<in>set [Suc (length d)..<length ?p]. ?p ! i \<noteq> CHR ''/''"
    proof
      fix i assume "i \<in> set [Suc (length d)..<length ?p]"
      then have i: "Suc (length d) \<le> i" "i < length d + 1 + length n" by auto
      then have "?p ! i = n ! (i - Suc (length d))"
        by (simp add: nth_append nth_Cons')
      moreover have "n ! (i - Suc (length d)) \<in> set n"
        using i by (intro nth_mem) auto
      ultimately show "?p ! i \<noteq> CHR ''/''" using assms by auto
    qed
    then show ?thesis by (simp add: filter_empty_conv)
  qed
  show ?thesis
  proof (cases "d = []")
    case True
    then show ?thesis using tail by (simp add: ancestors_def)
  next
    case False
    have "[1..<length d + (1 + length n)] = [1..<length d] @ [length d..<length d + (1 + length n)]"
      using False by (intro upt_add_eq_append) (simp add: Suc_le_eq)
    then have "[1..<length ?p] = [1..<length d] @ [length d..<length ?p]"
      by simp
    also have "[length d..<length ?p] = length d # [Suc (length d)..<length ?p]"
      by (intro upt_conv_Cons) simp
    finally have split: "[1..<length ?p] = [1..<length d] @ length d # [Suc (length d)..<length ?p]" .
    have at_d: "?p ! length d = CHR ''/''"
      by simp
    have head: "filter (\<lambda>i. ?p ! i = CHR ''/'') [1..<length d] = filter (\<lambda>i. d ! i = CHR ''/'') [1..<length d]"
      by (rule filter_cong) (auto simp: nth_append)
    have "filter (\<lambda>i. ?p ! i = CHR ''/'') [1..<length ?p]
        = filter (\<lambda>i. ?p ! i = CHR ''/'') [1..<length d]
          @ filter (\<lambda>i. ?p ! i = CHR ''/'') (length d # [Suc (length d)..<length ?p])"
      by (simp only: split filter_append)
    also have "filter (\<lambda>i. ?p ! i = CHR ''/'') (length d # [Suc (length d)..<length ?p]) = [length d]"
      by (simp only: filter.simps at_d tail if_True refl simp_thms)
    finally have f: "filter (\<lambda>i. ?p ! i = CHR ''/'') [1..<length ?p]
        = filter (\<lambda>i. d ! i = CHR ''/'') [1..<length d] @ [length d]"
      by (simp only: head)
    have m: "map (\<lambda>i. take i ?p) (filter (\<lambda>i. d ! i = CHR ''/'') [1..<length d])
        = map (\<lambda>i. take i d) (filter (\<lambda>i. d ! i = CHR ''/'') [1..<length d])"
      by (rule map_cong) auto
    have "ancestors ?p = map (\<lambda>i. take i ?p) (filter (\<lambda>i. d ! i = CHR ''/'') [1..<length d] @ [length d])"
      by (simp only: ancestors_def f)
    also have "\<dots> = map (\<lambda>i. take i d) (filter (\<lambda>i. d ! i = CHR ''/'') [1..<length d]) @ [take (length d) ?p]"
      by (simp only: map_append m list.map)
    also have "\<dots> = ancestors d @ [d]"
      by (simp add: ancestors_def)
    finally show ?thesis using False by simp
  qed
qed

lemma mkdir_result:
  assumes "\<not> list_ex (is_file fs) (ancestors d)" "fs d = None"
  shows "mkdirSync_recursive fs d = Inr (\<lambda>q. if q = d \<or> q \<in> set (ancestors d) then Some Dir else fs q)"
  using assms by (simp add: mkdirSync_recursive_def is_file_def)

lemma longer_untouched:
  assumes "length d < length q"
  shows "(\<lambda>q. if q = d \<or> q \<in> set (ancestors d) then Some Dir else fs q) q = fs q"
  using assms ancestors_shorter [of q d] by auto

lemma parent_ok_join:
  assumes "fs d = Some Dir" "CHR ''/'' \<notin> set n"
  shows "parent_ok fs (path_join d n)"
  using assms by (simp add: parent_ok_def path_join_def ancestors_join)

lemma writeManifest_result:
  assumes str: "JSON_stringify js data = Some text"
    and dir: "fs destDir = Some Dir \<or> (fs destDir = None \<and> \<not> list_ex (is_file fs) (ancestors destDir))"
    and man: "fs (path_join destDir MANIFEST_FILENAME) \<noteq> Some Dir"
  shows "\<exists>fs1. writeManifest js fs destDir data = fs1(path_join destDir MANIFEST_FILENAME \<mapsto> File text)
           \<and> (\<forall>q. length destDir < length q \<longrightarrow> fs1 q = fs q)"
proof -
  let ?mp = "path_join destDir MANIFEST_FILENAME"
  define fs1 where "fs1 = (if fs destDir = Some Dir then fs
      else (\<lambda>q. if q = destDir \<or> q \<in> set (ancestors destDir) then Some Dir else fs q))"
  have step1: "(if \<not> existsSync fs destDir then mkdirSync_recursive fs destDir else Inr fs) = Inr fs1"
    using dir by (auto simp: existsSync_def fs1_def mkdir_result)
  have d1: "fs1 destDir = Some Dir"
    using dir by (auto simp: fs1_def)
  have far: "\<forall>q. length destDir < length q \<longrightarrow> fs1 q = fs q"
    using longer_untouched [of destDir _ fs] by (simp add: fs1_def)
  have len: "length destDir < length ?mp"
    by (simp add: path_join_def)
  have "fs1 ?mp \<noteq> Some Dir"
    using far len man by simp
  moreover have "parent_ok fs1 ?mp"
    using d1 by (rule parent_ok_join) (simp add: MANIFEST_FILENAME_def)
  ultimately have w: "writeFileSync fs1 ?mp text = Inr (fs1(?mp \<mapsto> File text))"
    by (simp add: writeFileSync_def)
  have "writeManifest js fs destDir data = fs1(?mp \<mapsto> File text)"
    unfolding writeManifest_def Let_def step1 by (simp add: str w)
  then show ?thesis using far by blast
qed

lemma manifest_image_fields:
  "get_prop (json_image (manifest_object m)) k = get_prop (manifest_object m) k"
  by (cases "m_shasum m") (simp_all add: manifest_object_def opt_val_def)


lemma same_download_accepted:
  assumes r: "readManifest js fs' destDir = json_image (manifest_object m)"
  shows "upToDate (checkIfUpToDate js fs' destDir (m_packageName m) (JStr (m_version m))
            (opt_val (m_shasum m))) \<longleftrightarrow> existsSync fs' (path_join destDir ''package'')"
  unfolding checkIfUpToDate_def Let_def r
  by (cases "m_shasum m") (simp_all add: manifest_object_def opt_val_def)

text \<open>
  Claim C9, as amended. Take a destination at which the manifest can be written: the
  directory exists, or nothing is there and no regular file stands above it, and no
  directory stands at the manifest's own path. Take a manifest record as \<open>downloadFromNpm\<close>
  builds it, and a codec that reads back what it writes for this record. Then
  \<open>readManifest\<close> after \<open>writeManifest\<close> returns a record with the same value in every
  field, and a following \<open>checkIfUpToDate\<close> for the same package name, version and shasum
  answers \<open>upToDate = true\<close> exactly when the \<open>package\<close> directory exists under the
  destination.
\<close>

theorem manifest_round_trip:
  fixes js fs destDir m
  defines "fs' \<equiv> writeManifest js fs destDir (manifest_object m)"
  defines "r \<equiv> readManifest js fs' destDir"
  assumes str: "JSON_stringify js (manifest_object m) = Some text"
    and par: "JSON_parse js text = Some (json_image (manifest_object m))"
    and dir: "fs destDir = Some Dir \<or>
              (fs destDir = None \<and> \<not> list_ex (is_file fs) (ancestors destDir))"
    and man: "fs (path_join destDir MANIFEST_FILENAME) \<noteq> Some Dir"
  shows "get_prop r ''packageName'' = JStr (m_packageName m) \<and>
     get_prop r ''version'' = JStr (m_version m) \<and>
     get_prop r ''shasum'' = opt_val (m_shasum m) \<and>
     get_prop r ''tarball'' = JStr (m_tarball m) \<and>
     get_prop r ''downloadedAt'' = JStr (m_downloadedAt m) \<and>
     get_prop r ''extractDir'' = JStr (m_extractDir m) \<and>
     (\<forall>k. get_prop r k = get_prop (manifest_object m) k) \<and>
     (upToDate (checkIfUpToDate js fs' destDir (m_packageName m) (JStr (m_version m))
          (opt_val (m_shasum m))) \<longleftrightarrow> existsSync fs (path_join destDir ''package''))"
proof -
  let ?mp = "path_join destDir MANIFEST_FILENAME"
  obtain fs1 where w: "fs' = fs1(?mp \<mapsto> File text)"
    and far: "\<forall>q. length destDir < length q \<longrightarrow> fs1 q = fs q"
    using writeManifest_result [OF str dir man] unfolding fs'_def by blast
  have r: "r = json_image (manifest_object m)"
    unfolding r_def readManifest_def Let_def w
    by (simp add: existsSync_def readFileSync_def par)
  have fields: "\<forall>k. get_prop r k = get_prop (manifest_object m) k"
    unfolding r by (simp add: manifest_image_fields)
  have pkg: "existsSync fs' (path_join destDir ''package'') = existsSync fs (path_join destDir ''package'')"
    unfolding w using far
    by (simp add: existsSync_def path_join_def MANIFEST_FILENAME_def)
  have chk: "upToDate (checkIfUpToDate js fs' destDir (m_packageName m) (JStr (m_version m))
          (opt_val (m_shasum m))) \<longleftrightarrow> existsSync fs (path_join destDir ''package'')"
    using same_download_accepted [of js fs' destDir m] r pkg unfolding r_def by simp
  show ?thesis
    using fields chk by (simp add: manifest_object_def)
qed

theorem manifest_round_trip_witness:
  "JSON_stringify example_codec (manifest_object claude_download)
      = Some (stringify_at [] (manifest_object claude_download)) \<and>
   JSON_parse example_codec (stringify_at [] (manifest_object claude_download))
      = Some (json_image (manifest_object claude_download)) \<and>
   cached_fs ''core/claude-code'' = Some Dir \<and>
   cached_fs (path_join ''core/claude-code'' MANIFEST_FILENAME) \<noteq> Some Dir \<and>
   existsSync cached_fs (path_join ''core/claude-code'' ''package'') \<and>
   get_prop (readManifest example_codec
       (writeManifest example_codec cached_fs ''core/claude-code'' (manifest_object claude_download))
       ''core/claude-code'') ''version'' = JStr ''2.0.75'' \<and>
   upToDate (checkIfUpToDate example_codec
       (writeManifest example_codec cached_fs ''core/claude-code'' (manifest_object claude_download))
       ''core/claude-code'' ''@anthropic-ai/claude-code'' (JStr ''2.0.75'')
       (JStr ''3f2a9c0d1e4b5a6978c0d1e2f3a4b5c6d7e8f901''))"
proof -
  have str: "JSON_stringify example_codec (manifest_object claude_download)
      = Some (stringify_at [] (manifest_object claude_download))"
    by (simp add: example_codec_def stringify_def manifest_object_def)
  have par: "JSON_parse example_codec (stringify_at [] (manifest_object claude_download))
      = Some (json_image (manifest_object claude_download))"
    by code_simp
  have dir: "cached_fs ''core/claude-code'' = Some Dir \<or>
      (cached_fs ''core/claude-code'' = None \<and> \<not> list_ex (is_file cached_fs) (ancestors ''core/claude-code''))"
    by (simp add: cached_fs_def)
  have man: "cached_fs (path_join ''core/claude-code'' MANIFEST_FILENAME) \<noteq> Some Dir"
    by (simp add: cached_fs_def path_join_def MANIFEST_FILENAME_def)
  have pkg: "existsSync cached_fs (path_join ''core/claude-code'' ''package'')"
    by (simp add: cached_fs_def path_join_def existsSync_def)
  have d: "cached_fs ''core/claude-code'' = Some Dir"
    by (simp add: cached_fs_def)
  have sel: "m_packageName claude_download = ''@anthropic-ai/claude-code''"
    "m_version claude_download = ''2.0.75''"
    "opt_val (m_shasum claude_download) = JStr ''3f2a9c0d1e4b5a6978c0d1e2f3a4b5c6d7e8f901''"
    by (simp_all add: claude_download_def opt_val_def)
  show ?thesis
    using manifest_round_trip [OF str par dir man] str par d man pkg
    unfolding sel by blast
qed

text \<open>
  Claim C9 as stated fails. In a project where nothing was extracted yet, the manifest is
  written and read back, and \<open>checkIfUpToDate\<close> still answers \<open>upToDate = false\<close>: the
  \<open>package\<close> directory is missing. Where a regular file stands at the destination, the
  write fails, the failure is swallowed, and \<open>readManifest\<close> returns \<open>null\<close>.
\<close>

theorem manifest_round_trip_counterexample:
  "get_prop (readManifest example_codec
       (writeManifest example_codec fresh_fs ''core/claude-code'' (manifest_object claude_download))
       ''core/claude-code'') ''version'' = JStr ''2.0.75'' \<and>
   \<not> upToDate (checkIfUpToDate example_codec
       (writeManifest example_codec fresh_fs ''core/claude-code'' (manifest_object claude_download))
       ''core/claude-code'' ''@anthropic-ai/claude-code'' (JStr ''2.0.75'')
       (JStr ''3f2a9c0d1e4b5a6978c0d1e2f3a4b5c6d7e8f901'')) \<and>
   reason (checkIfUpToDate example_codec
       (writeManifest example_codec fresh_fs ''core/claude-code'' (manifest_object claude_download))
       ''core/claude-code'' ''@anthropic-ai/claude-code'' (JStr ''2.0.75'')
       (JStr ''3f2a9c0d1e4b5a6978c0d1e2f3a4b5c6d7e8f901'')) = ''Extracted files missing'' \<and>
   readManifest example_codec
       (writeManifest example_codec blocked_fs ''core/claude-code'' (manifest_object claude_download))
       ''core/claude-code'' = JNull"
  by code_simp

section \<open>Properties of the source patcher\<close>

lemma starts_like_iff: "starts_like l t \<longleftrightarrow> prefix l t \<or> prefix t l"
  by (induction l t rule: starts_like.induct) auto

lemma starts_like_append: "prefix l (t @ x) \<Longrightarrow> starts_like l t"
  by (auto simp: starts_like_iff prefix_append)

lemma no_start_iff: "no_start l h \<longleftrightarrow> (\<forall>t. suffix t h \<and> t \<noteq> [] \<longrightarrow> \<not> starts_like l t)"
proof (induction h)
  case Nil
  show ?case by simp
next
  case (Cons c h)
  show ?case
    by (auto simp: Cons.IH suffix_Cons)
qed

lemma shift_search:
  assumes "no_start l h"
  shows "rx_search (Lit l # q) (h @ x) = map_option (\<lambda>(b, m, a). (h @ b, m, a)) (rx_search (Lit l # q) x)"
  using assms
proof (induction h)
  case Nil
  show ?case by (simp add: option.map_ident case_prod_unfold)
next
  case (Cons c h)
  then have ns: "\<not> starts_like l (c # h)" and rest: "no_start l h"
    by (auto split: if_splits)
  have "\<not> prefix l (c # h @ x)"
    using ns starts_like_append [of l "c # h" x] by auto
  then have "rx_match (Lit l # q) (c # h @ x) = None"
    by simp
  then show ?case
    using Cons.IH [OF rest] by (simp add: option.map_comp o_def case_prod_unfold)
qed

lemma no_start_append_line:
  assumes a: "no_start l h" and b: "no_start l b" and l: "CHR 0x0A \<notin> set l"
    and h: "h \<noteq> []" "last h = CHR 0x0A"
  shows "no_start l (h @ b)"
  unfolding no_start_iff
proof (intro allI impI)
  fix t assume t: "suffix t (h @ b) \<and> t \<noteq> []"
  then have "suffix t b \<or> (\<exists>u. t = u @ b \<and> suffix u h)"
    by (simp only: suffix_append)
  then show "\<not> starts_like l t"
  proof (elim disjE exE conjE)
    assume "suffix t b"
    then show ?thesis using b t by (simp add: no_start_iff)
  next
    fix u assume u: "t = u @ b" "suffix u h"
    show ?thesis
    proof (cases "u = []")
      case True
      then have "suffix t b" using u(1) by simp
      then show ?thesis using b t by (simp add: no_start_iff)
    next
      case False
      have nu: "\<not> starts_like l u"
        using a u(2) False by (simp add: no_start_iff)
      obtain z where z: "h = z @ u"
        using u(2) by (auto simp: suffix_def)
      have "last u = CHR 0x0A"
        using h(2) False unfolding z by simp
      then have nl: "CHR 0x0A \<in> set u"
        using False last_in_set [of u] by simp
      show ?thesis
      proof
        assume "starts_like l t"
        then have "prefix l (u @ b) \<or> prefix (u @ b) l"
          by (simp only: starts_like_iff u(1))
        then show False
        proof
          assume "prefix l (u @ b)"
          then have "prefix l u \<or> (\<exists>us. l = u @ us \<and> prefix us b)"
            by (simp only: prefix_append)
          then show False
          proof (elim disjE exE conjE)
            assume "prefix l u"
            then show False using nu by (simp add: starts_like_iff)
          next
            fix us assume "l = u @ us"
            then have "set u \<subseteq> set l" by simp
            then show False using nl l by blast
          qed
        next
          assume "prefix (u @ b) l"
          then obtain zs where "l = (u @ b) @ zs"
            by (auto simp: prefix_def)
          then have "set u \<subseteq> set l" by simp
          then show False using nl l by blast
        qed
      qed
    qed
  qed
qed

lemma no_start_unlines:
  assumes "CHR 0x0A \<notin> set l" "list_all (\<lambda>ln. no_start l (ln @ [CHR 0x0A])) ls"
  shows "no_start l (unlines ls)"
  using assms(2)
proof (induction ls)
  case Nil
  show ?case by (simp add: unlines_def)
next
  case (Cons x xs)
  then have "no_start l (x @ [CHR 0x0A])" "no_start l (unlines xs)"
    by simp_all
  then have "no_start l ((x @ [CHR 0x0A]) @ unlines xs)"
    using assms(1) by (rule no_start_append_line) simp_all
  then show ?case by (simp add: unlines_def)
qed

lemma shell_code_no_check:
  \<open>no_start ''if(!J){let F="No suitable shell found'' SHELL_DETECTION_CODE\<close>
  unfolding SHELL_DETECTION_CODE_def
  by (rule no_start_unlines) simp_all

lemma GetSubstitution_plain:
  "CHR ''$'' \<notin> set t \<Longrightarrow> GetSubstitution m b a caps named t = t"
proof (induction t)
  case Nil
  show ?case by (simp add: GetSubstitution.simps)
next
  case (Cons c t)
  then have c: "c \<noteq> CHR ''$''" and ih: "GetSubstitution m b a caps named t = t"
    by auto
  show ?case
  proof (cases t)
    case Nil
    then show ?thesis by (simp add: GetSubstitution.simps(2))
  next
    case (Cons d u)
    have "GetSubstitution m b a caps named (c # d # u) = c # GetSubstitution m b a caps named (d # u)"
      by (subst GetSubstitution.simps(3)) (simp only: c not_False_eq_True if_True)
    then show ?thesis
      using ih unfolding Cons by simp
  qed
qed

lemma String_replace_exec_of:
  "String_replace s (exec_of p) repl =
     (case rx_search p s of
        None \<Rightarrow> s
      | Some (b, m, a) \<Rightarrow> b @ GetSubstitution m b a [] None repl @ a)"
proof (cases "rx_search p s")
  case None
  then show ?thesis by (simp add: String_replace_def exec_of_def)
next
  case (Some h)
  obtain b m a where h: "h = (b, m, a)" by (cases h)
  have s: "s = b @ m @ a"
    using Some h rx_search_parts by blast
  have "min (length b) (length s) = length b"
    unfolding s by simp
  moreover have "take (length b) s = b" "drop (length b + length m) s = a"
    unfolding s by simp_all
  ultimately show ?thesis
    using Some h by (simp add: String_replace_def exec_of_def Let_def)
qed

lemma replace_first_plain:
  assumes "CHR ''$'' \<notin> set repl"
  shows "replace_first p repl s = (case rx_search p s of None \<Rightarrow> s | Some (b, m, a) \<Rightarrow> b @ repl @ a)"
  unfolding replace_first_def String_replace_exec_of
  by (simp add: GetSubstitution_plain [OF assms] split: option.splits)

lemma bypass_after:
  assumes \<open>no_start ''if(!J){let F="No suitable shell found'' h\<close>
  shows "bypass_shell_check (h @ x) = h @ bypass_shell_check x"
proof -
  have s: "rx_search shellCheckPattern (h @ x)
      = map_option (\<lambda>(b, m, a). (h @ b, m, a)) (rx_search shellCheckPattern x)"
    unfolding shellCheckPattern_def using assms by (rule shift_search)
  have plain: "CHR ''$'' \<notin> set shellCheckReplacement"
    by (simp add: shellCheckReplacement_def)
  show ?thesis
    unfolding bypass_shell_check_def rx_test_def replace_first_plain [OF plain] s
    by (cases "rx_search shellCheckPattern x") auto
qed

lemma match_start_parts: "match_start p x = Some (s, r) \<Longrightarrow> x = s @ r \<and> rx_match p x = Some r"
proof -
  assume a: "match_start p x = Some (s, r)"
  then have m: "rx_match p x = Some r" and s: "s = take (length x - length r) x"
    by (auto simp: match_start_def)
  from m have "suffix r x" by (rule rx_match_suffix)
  then obtain u where "x = u @ r" by (auto simp: suffix_def)
  then show ?thesis using m s by simp
qed

lemma use_strict_shape:
  assumes "match_start use_strict x = Some (s, r)"
  shows "\<exists>q q' sc. (q = CHR 0x27 \<or> q = CHR 0x22) \<and> (q' = CHR 0x27 \<or> q' = CHR 0x22) \<and>
           (sc = [] \<or> sc = '';'') \<and> s = q # ''use strict'' @ q' # sc"
proof -
  from assms have x: "x = s @ r" and m: "rx_match use_strict x = Some r"
    using match_start_parts by blast+
  obtain q cs where qc: "x = q # cs"
    using m by (cases x) (auto simp: use_strict_def)
  have q: "q = CHR 0x27 \<or> q = CHR 0x22" and p: "prefix ''use strict'' cs"
    and m2: "rx_match [One (AnyOf [CHR 0x27, CHR 0x22]), Opt '';'']
               (drop (length ''use strict'') cs) = Some r"
    using m unfolding qc use_strict_def by (auto split: if_splits)
  obtain cs2 where cs: "cs = ''use strict'' @ cs2"
    using p unfolding prefix_def by blast
  have m3: "rx_match [One (AnyOf [CHR 0x27, CHR 0x22]), Opt '';''] cs2 = Some r"
    using m2 unfolding cs by simp
  obtain q' cs3 where cs2: "cs2 = q' # cs3"
    using m3 by (cases cs2) auto
  have q': "q' = CHR 0x27 \<or> q' = CHR 0x22" and m4: "rx_match [Opt '';''] cs3 = Some r"
    using m3 unfolding cs2 by (auto split: if_splits)
  have "cs3 = r \<or> cs3 = '';'' @ r"
  proof (cases "prefix '';'' cs3")
    case True
    then obtain u where u: "cs3 = '';'' @ u" unfolding prefix_def by blast
    then have "r = u" using m4 by simp
    then show ?thesis using u by simp
  next
    case False
    then show ?thesis using m4 by simp
  qed
  then obtain sc where sc: "sc = [] \<or> sc = '';''" and c3: "cs3 = sc @ r"
    by auto
  have "s @ r = (q # ''use strict'' @ q' # sc) @ r"
    using x unfolding qc cs cs2 c3 by simp
  then have "s = q # ''use strict'' @ q' # sc"
    by (simp only: append_same_eq)
  then show ?thesis using q q' sc by blast
qed

lemma strict_no_check:
  assumes "q = CHR 0x27 \<or> q = CHR 0x22" "q' = CHR 0x27 \<or> q' = CHR 0x22" "sc = [] \<or> sc = '';''"
  shows \<open>no_start ''if(!J){let F="No suitable shell found'' (q # ''use strict'' @ q' # sc)\<close>
  using assms by auto

lemma bypass_inject:
  "bypass_shell_check (inject_shell_detection y) =
     (case match_start use_strict y of
        None \<Rightarrow> SHELL_DETECTION_CODE @ bypass_shell_check y
      | Some (s, rest) \<Rightarrow> s @ SHELL_DETECTION_CODE @ bypass_shell_check rest)"
proof (cases "match_start use_strict y")
  case None
  then have "inject_shell_detection y = SHELL_DETECTION_CODE @ y"
    by (simp add: inject_shell_detection_def)
  then show ?thesis
    using None by (simp only: bypass_after [OF shell_code_no_check] option.case)
next
  case (Some sr)
  obtain s rest where sr: "sr = (s, rest)" by (cases sr)
  have ms: "match_start use_strict y = Some (s, rest)"
    using Some sr by simp
  obtain q q' sc where q: "q = CHR 0x27 \<or> q = CHR 0x22" "q' = CHR 0x27 \<or> q' = CHR 0x22"
      "sc = [] \<or> sc = '';''" and s: "s = q # ''use strict'' @ q' # sc"
    using use_strict_shape [OF ms] by blast
  have ns: \<open>no_start ''if(!J){let F="No suitable shell found'' s\<close>
    unfolding s using q by (rule strict_no_check)
  have "inject_shell_detection y = s @ SHELL_DETECTION_CODE @ rest"
    using ms by (simp add: inject_shell_detection_def)
  then have "bypass_shell_check (inject_shell_detection y)
      = s @ SHELL_DETECTION_CODE @ bypass_shell_check rest"
    by (simp only: bypass_after [OF ns] bypass_after [OF shell_code_no_check])
  then show ?thesis
    using ms by (simp only: option.case prod.case)
qed

lemma shell_code_head: "\<exists>t. SHELL_DETECTION_CODE = CHR 0x0A # t"
  by (simp add: SHELL_DETECTION_CODE_def unlines_def)

lemma injected_head:
  fixes y
  defines "c \<equiv> bypass_shell_check (inject_shell_detection y)"
  shows "\<not> prefix ''#!'' c"
    and "prefix SHELL_DETECTION_CODE c \<or>
         (\<exists>q q' sc. (q = CHR 0x27 \<or> q = CHR 0x22) \<and> (q' = CHR 0x27 \<or> q' = CHR 0x22) \<and>
            (sc = [] \<or> sc = '';'') \<and> prefix (q # ''use strict'' @ q' # sc @ SHELL_DETECTION_CODE) c)"
proof -
  obtain u where u: "SHELL_DETECTION_CODE = CHR 0x0A # u"
    using shell_code_head by blast
  show h: "prefix SHELL_DETECTION_CODE c \<or>
         (\<exists>q q' sc. (q = CHR 0x27 \<or> q = CHR 0x22) \<and> (q' = CHR 0x27 \<or> q' = CHR 0x22) \<and>
            (sc = [] \<or> sc = '';'') \<and> prefix (q # ''use strict'' @ q' # sc @ SHELL_DETECTION_CODE) c)"
  proof (cases "match_start use_strict y")
    case None
    then have "c = SHELL_DETECTION_CODE @ bypass_shell_check y"
      unfolding c_def bypass_inject by simp
    then show ?thesis by simp
  next
    case (Some sr)
    obtain s rest where sr: "sr = (s, rest)" by (cases sr)
    have ms: "match_start use_strict y = Some (s, rest)"
      using Some sr by simp
    obtain q q' sc where q: "q = CHR 0x27 \<or> q = CHR 0x22" "q' = CHR 0x27 \<or> q' = CHR 0x22"
        "sc = [] \<or> sc = '';''" and s: "s = q # ''use strict'' @ q' # sc"
      using use_strict_shape [OF ms] by blast
    have "c = (q # ''use strict'' @ q' # sc @ SHELL_DETECTION_CODE) @ bypass_shell_check rest"
      unfolding c_def bypass_inject ms s by simp
    then have "prefix (q # ''use strict'' @ q' # sc @ SHELL_DETECTION_CODE) c"
      by (simp only: prefixI)
    then show ?thesis using q by blast
  qed
  show "\<not> prefix ''#!'' c"
  proof
    assume "prefix ''#!'' c"
    then obtain t where t: "c = CHR ''#'' # t"
      by (auto simp: prefix_def)
    from h show False
      unfolding t u by (auto simp: prefix_def)
  qed
qed

lemma star_to_newline:
  assumes "CHR 0x0A \<notin> set l"
  shows "rx_match [Star (NoneOf [CHR 0x0A]), Lit [CHR 0x0A]] (l @ CHR 0x0A # rest) = Some rest"
  using assms by (induction l) auto

lemma strip_shebang_line:
  assumes "CHR 0x0A \<notin> set l"
  shows "strip_shebang (''#!'' @ l @ [CHR 0x0A] @ rest) = rest"
proof -
  have "rx_match shebang_to_newline (''#!'' @ l @ [CHR 0x0A] @ rest) = Some rest"
    using star_to_newline [OF assms, of rest] by (simp add: shebang_to_newline_def)
  then show ?thesis
    by (simp add: strip_shebang_def match_start_def)
qed

lemma star_without_newline:
  assumes "CHR 0x0A \<notin> set s"
  shows "rx_match [Star (NoneOf [CHR 0x0A]), Lit [CHR 0x0A]] s = None"
  using assms by (induction s) auto

lemma strip_shebang_none:
  assumes "\<not> prefix ''#!'' content \<or> CHR 0x0A \<notin> set content"
  shows "strip_shebang content = content"
proof -
  have "rx_match shebang_to_newline content = None"
  proof (cases "prefix ''#!'' content")
    case False
    then show ?thesis by (simp add: shebang_to_newline_def)
  next
    case True
    then obtain t where t: "content = ''#!'' @ t"
      unfolding prefix_def by blast
    have "CHR 0x0A \<notin> set t"
      using assms True unfolding t by simp
    then show ?thesis
      unfolding t using star_without_newline [of t] by (simp add: shebang_to_newline_def)
  qed
  then show ?thesis
    by (simp add: strip_shebang_def match_start_def)
qed

lemma replace_first_matching_none:
  "\<forall>pat\<in>set pats. pat x = None \<Longrightarrow> replace_first_matching pats repl x = x"
  by (induction pats) simp_all

lemma patches_ok:
  fixes RegExp :: regexp_constructor and toolConfig
  defines "pre \<equiv> or_opt (cfg_envPrefix toolConfig) ''CLI_TOOL''"
  assumes "RegExp (entrypoint_source pre) = Inr r"
  shows "entrypointPatterns RegExp pre = Inr [r, exec_of claude_entrypoint, exec_of any_entrypoint]"
    and \<open>mark_bundled RegExp pre x =
      Inr (replace_first_matching [r, exec_of claude_entrypoint, exec_of any_entrypoint]
             (''process.env.'' @ pre @ ''_ENTRYPOINT="cli";process.env.'' @ pre @ ''_BUNDLED="1"'') x)\<close>
    and \<open>mark_windows RegExp pre x =
      Inr (replace_first_matching [r, exec_of claude_entrypoint, exec_of any_entrypoint]
             (''process.env.'' @ pre @ ''_ENTRYPOINT="cli";process.env.'' @ pre
                @ ''_WINDOWS_EXECUTABLE="1"'') x)\<close>
    and \<open>applyCommonPatches RegExp content toolConfig =
      Inr (bypass_shell_check (inject_shell_detection
        (replace_first_matching [r, exec_of claude_entrypoint, exec_of any_entrypoint]
           (''process.env.'' @ pre @ ''_ENTRYPOINT="cli";process.env.'' @ pre @ ''_BUNDLED="1"'')
           (strip_shebang content))))\<close>
    and \<open>applyWindowsPatches RegExp content toolConfig =
      Inr (replace_first_matching [r, exec_of claude_entrypoint, exec_of any_entrypoint]
             (''process.env.'' @ pre @ ''_ENTRYPOINT="cli";process.env.'' @ pre
                @ ''_WINDOWS_EXECUTABLE="1"'')
             (windows_compat (or_opt (cfg_binaryName toolConfig) ''cli-tool'') content))\<close>
proof -
  show e: "entrypointPatterns RegExp pre = Inr [r, exec_of claude_entrypoint, exec_of any_entrypoint]"
    using assms(2) by (simp add: entrypointPatterns_def)
  show b: \<open>mark_bundled RegExp pre x =
      Inr (replace_first_matching [r, exec_of claude_entrypoint, exec_of any_entrypoint]
             (''process.env.'' @ pre @ ''_ENTRYPOINT="cli";process.env.'' @ pre @ ''_BUNDLED="1"'') x)\<close>
    for x
    unfolding mark_bundled_def e by simp
  show w: \<open>mark_windows RegExp pre x =
      Inr (replace_first_matching [r, exec_of claude_entrypoint, exec_of any_entrypoint]
             (''process.env.'' @ pre @ ''_ENTRYPOINT="cli";process.env.'' @ pre
                @ ''_WINDOWS_EXECUTABLE="1"'') x)\<close>
    for x
    unfolding mark_windows_def e by simp
  show \<open>applyCommonPatches RegExp content toolConfig =
      Inr (bypass_shell_check (inject_shell_detection
        (replace_first_matching [r, exec_of claude_entrypoint, exec_of any_entrypoint]
           (''process.env.'' @ pre @ ''_ENTRYPOINT="cli";process.env.'' @ pre @ ''_BUNDLED="1"'')
           (strip_shebang content))))\<close>
    unfolding applyCommonPatches_def Let_def pre_def [symmetric] b by simp
  show \<open>applyWindowsPatches RegExp content toolConfig =
      Inr (replace_first_matching [r, exec_of claude_entrypoint, exec_of any_entrypoint]
             (''process.env.'' @ pre @ ''_ENTRYPOINT="cli";process.env.'' @ pre
                @ ''_WINDOWS_EXECUTABLE="1"'')
             (windows_compat (or_opt (cfg_binaryName toolConfig) ''cli-tool'') content))\<close>
    unfolding applyWindowsPatches_def Let_def pre_def [symmetric] w by simp
qed

lemma patches_throw:
  fixes RegExp :: regexp_constructor
  assumes "RegExp (entrypoint_source (or_opt (cfg_envPrefix toolConfig) ''CLI_TOOL'')) = Inl e"
  shows "applyCommonPatches RegExp content toolConfig = Inl e"
    and "applyWindowsPatches RegExp content toolConfig = Inl e"
  using assms
  by (simp_all add: applyCommonPatches_def applyWindowsPatches_def mark_bundled_def mark_windows_def
      entrypointPatterns_def)

lemma common_patches_shape:
  assumes "applyCommonPatches RegExp content toolConfig = Inr c"
  shows "\<exists>y. c = bypass_shell_check (inject_shell_detection y)"
  using assms unfolding applyCommonPatches_def Let_def
  by (auto split: sum.splits)

lemma basename_no_slash: "CHR ''/'' \<notin> set (basename_js p)"
proof -
  have "CHR ''/'' \<notin> set (rev (takeWhile (\<lambda>c. c \<noteq> CHR ''/'') (rev p)))"
    by (auto dest: set_takeWhileD)
  then show ?thesis
    unfolding basename_js_def Let_def by (auto dest: in_set_takeD)
qed

lemma prepareSource_success:
  fixes RegExp :: regexp_constructor and fs sourceDir targetPlatform toolConfig
  defines "entry \<equiv> or_opt (cfg_entryPoint toolConfig) ''cli.js''"
  defines "pp \<equiv> path_join sourceDir
     (if targetPlatform = ''windows'' then basename_js entry @ ''-windows-prepared.js''
      else basename_js entry @ ''-prepared.js'')"
  assumes src: "fs (path_join sourceDir entry) = Some (File src)"
    and dir: "fs sourceDir = Some Dir"
    and free: "fs pp \<noteq> Some Dir"
    and win: "(if targetPlatform = ''windows''
               then applyWindowsPatches RegExp (addEmbeddedImports fs src sourceDir) toolConfig
               else Inr (addEmbeddedImports fs src sourceDir)) = Inr c2"
    and com: "applyCommonPatches RegExp c2 toolConfig = Inr c3"
  shows "prepareSource RegExp fs sourceDir targetPlatform toolConfig =
     (Inr pp, fs(pp \<mapsto> File c3),
      [''Reading CLI source ('' @ entry @ '')...'', ''Adding embedded file imports...'']
      @ (if targetPlatform = ''windows'' then [''Applying Windows-specific patches...''] else [])
      @ [''Applying common patches...'', ''Prepared source written to '' @ pp])"
proof -
  have ex: "existsSync fs (path_join sourceDir entry)"
    using src by (simp add: existsSync_def)
  have rd: "readFileSync fs (path_join sourceDir entry) = Inr src"
    using src by (simp add: readFileSync_def)
  have "parent_ok fs pp"
    unfolding pp_def using dir by (rule parent_ok_join) (simp add: basename_no_slash)
  then have wr: "\<And>c. writeFileSync fs pp c = Inr (fs(pp \<mapsto> File c))"
    using free by (simp add: writeFileSync_def)
  show ?thesis
    unfolding prepareSource_def Let_def entry_def [symmetric]
    by (simp add: ex rd wr win com pp_def [symmetric]
        if_distrib [of "path_join sourceDir", symmetric] del: fun_upd_apply)
qed

lemma prepareSource_throws:
  fixes RegExp :: regexp_constructor
  assumes src: "fs (path_join sourceDir (or_opt (cfg_entryPoint toolConfig) ''cli.js'')) = Some (File src)"
    and bad: "RegExp (entrypoint_source (or_opt (cfg_envPrefix toolConfig) ''CLI_TOOL'')) = Inl e"
  shows "prepareSource RegExp fs sourceDir targetPlatform toolConfig =
     (Inl e, fs,
      [''Reading CLI source ('' @ or_opt (cfg_entryPoint toolConfig) ''cli.js'' @ '')...'',
       ''Adding embedded file imports...'',
       (if targetPlatform = ''windows'' then ''Applying Windows-specific patches...''
        else ''Applying common patches...'')])"
proof -
  have ex: "existsSync fs (path_join sourceDir (or_opt (cfg_entryPoint toolConfig) ''cli.js''))"
    using src by (simp add: existsSync_def)
  have rd: "readFileSync fs (path_join sourceDir (or_opt (cfg_entryPoint toolConfig) ''cli.js'')) = Inr src"
    using src by (simp add: readFileSync_def)
  show ?thesis
    unfolding prepareSource_def Let_def
    by (simp add: ex rd patches_throw [where RegExp = RegExp and toolConfig = toolConfig, OF bad])
qed

lemma prepared_file_shape:
  assumes "prepareSource RegExp fs sourceDir targetPlatform toolConfig = (Inr preparedPath, fs', msgs)"
  shows "\<exists>y. fs' preparedPath = Some (File (bypass_shell_check (inject_shell_detection y)))"
proof -
  obtain c2 c3 where "applyCommonPatches RegExp c2 toolConfig = Inr c3"
      and "fs' = fs(preparedPath \<mapsto> File c3)"
    using assms unfolding prepareSource_def Let_def writeFileSync_def
    by (auto split: if_splits sum.splits)
  then show ?thesis
    using common_patches_shape by fastforce
qed

lemma cli_tool_pattern:
  \<open>example_RegExp (entrypoint_source ''CLI_TOOL'') =
     Inr (exec_of (map (\<lambda>c. One (AnyOf [c])) ''process.env.CLI_TOOL_ENTRYPOINT="cli"''))\<close>
  by (simp add: example_RegExp_def entrypoint_source_def token_of_def escape_token_def
      syntax_character_def repeat_def)

lemma default_prefix: "or_opt (cfg_envPrefix None) ''CLI_TOOL'' = ''CLI_TOOL''"
  by (simp add: cfg_envPrefix_def or_opt_def)

lemma unescaped_pattern:
  \<open>example_RegExp (entrypoint_source (or_opt (cfg_envPrefix unescaped_config) ''CLI_TOOL'')) =
     Inl (SyntaxError (''Invalid regular expression: /process'' @ [CHR 0x5C] @ ''.env''
            @ [CHR 0x5C] @ ''.A(_ENTRYPOINT="cli"/: Unterminated group''))\<close>
  by (simp add: example_RegExp_def entrypoint_source_def token_of_def escape_token_def
      syntax_character_def invalid_regexp_def unescaped_config_def cfg_envPrefix_def or_opt_def)

lemma plain_unmarked:
  \<open>list_all (\<lambda>pat. pat plain_source = None)
     [exec_of (map (\<lambda>c. One (AnyOf [c])) ''process.env.CLI_TOOL_ENTRYPOINT="cli"''),
      exec_of claude_entrypoint, exec_of any_entrypoint]\<close>
  by (simp add: exec_of_def claude_entrypoint_def any_entrypoint_def plain_source_def)

lemma plain_no_check: "\<not> rx_test shellCheckPattern (SHELL_DETECTION_CODE @ plain_source)"
proof -
  have "rx_search shellCheckPattern plain_source = None"
    by (simp add: shellCheckPattern_def plain_source_def)
  then show ?thesis
    unfolding rx_test_def shellCheckPattern_def
    by (simp add: shift_search [OF shell_code_no_check])
qed

lemma plain_strip: "strip_shebang plain_source = plain_source"
  by (simp add: strip_shebang_def match_start_def shebang_to_newline_def plain_source_def)

lemma plain_inject: "inject_shell_detection plain_source = SHELL_DETECTION_CODE @ plain_source"
  by (simp add: inject_shell_detection_def match_start_def use_strict_def plain_source_def)

lemma marked_body_bundled:
  \<open>mark_bundled example_RegExp ''CLI_TOOL''
     (''process.env.CLAUDE_CODE_ENTRYPOINT="cli";''
      @ ''if(!J){let F="No suitable shell found. Install bash";throw new Error(F)}run()'') =
   Inr (''process.env.CLI_TOOL_ENTRYPOINT="cli";process.env.CLI_TOOL_BUNDLED="1";''
        @ ''if(!J){let F="No suitable shell found. Install bash";throw new Error(F)}run()'')\<close>
  by code_simp

lemma marked_body_injected:
  \<open>bypass_shell_check (inject_shell_detection
     (''process.env.CLI_TOOL_ENTRYPOINT="cli";process.env.CLI_TOOL_BUNDLED="1";''
      @ ''if(!J){let F="No suitable shell found. Install bash";throw new Error(F)}run()'')) =
   SHELL_DETECTION_CODE
   @ ''process.env.CLI_TOOL_ENTRYPOINT="cli";process.env.CLI_TOOL_BUNDLED="1";''
   @ ''if(!J){J=__atomcli_detectShell()}run()''\<close>
proof -
  have m: \<open>match_start use_strict
     (''process.env.CLI_TOOL_ENTRYPOINT="cli";process.env.CLI_TOOL_BUNDLED="1";''
      @ ''if(!J){let F="No suitable shell found. Install bash";throw new Error(F)}run()'') = None\<close>
    by (simp add: match_start_def use_strict_def)
  have b: \<open>bypass_shell_check
     (''process.env.CLI_TOOL_ENTRYPOINT="cli";process.env.CLI_TOOL_BUNDLED="1";''
      @ ''if(!J){let F="No suitable shell found. Install bash";throw new Error(F)}run()'') =
     ''process.env.CLI_TOOL_ENTRYPOINT="cli";process.env.CLI_TOOL_BUNDLED="1";''
     @ ''if(!J){J=__atomcli_detectShell()}run()''\<close>
    by code_simp
  show ?thesis
    unfolding bypass_inject m b by simp
qed

lemma plain_bundled: "mark_bundled example_RegExp ''CLI_TOOL'' plain_source = Inr plain_source"
  by code_simp

lemma plain_injected:
  "bypass_shell_check (inject_shell_detection plain_source) = SHELL_DETECTION_CODE @ plain_source"
  using plain_no_check by (simp add: plain_inject bypass_shell_check_def)

text \<open>
  Claim C5. For every source directory and tool configuration, if the configured entry
  point (\<open>cli.js\<close> when none is configured) does not exist in the source directory,
  \<open>prepareSource\<close> throws the error \<open>CLI source not found at ...\<close>, and the file system
  after the call is the file system before it: no prepared file is written and the source
  directory is unchanged. Nothing is reported to \<open>onStatus\<close> either.
\<close>

theorem prepareSource_missing_entry:
  assumes "\<not> existsSync fs (path_join sourceDir (or_opt (cfg_entryPoint toolConfig) ''cli.js''))"
  shows "prepareSource RegExp fs sourceDir targetPlatform toolConfig =
     (Inl (Error (''CLI source not found at ''
             @ path_join sourceDir (or_opt (cfg_entryPoint toolConfig) ''cli.js''))), fs, []) \<and>
     or_opt (cfg_entryPoint None) ''cli.js'' = ''cli.js''"
  using assms by (simp add: prepareSource_def cfg_entryPoint_def or_opt_def)

theorem prepareSource_missing_entry_witness:
  "\<not> existsSync source_fs (path_join ''core/claude-code/package''
        (or_opt (cfg_entryPoint codex_config) ''cli.js'')) \<and>
   prepareSource example_RegExp source_fs ''core/claude-code/package'' ''linux'' codex_config =
     (Inl (Error ''CLI source not found at core/claude-code/package/bin/codex.js''), source_fs, [])"
proof -
  have e: "or_opt (cfg_entryPoint codex_config) ''cli.js'' = ''bin/codex.js''"
    by (simp add: codex_config_def cfg_entryPoint_def or_opt_def)
  have m: "\<not> existsSync source_fs (path_join ''core/claude-code/package''
        (or_opt (cfg_entryPoint codex_config) ''cli.js''))"
    unfolding e by (simp add: existsSync_def source_fs_def path_join_def)
  show ?thesis
    using m prepareSource_missing_entry [OF m, of example_RegExp "''linux''"]
    unfolding e by (simp add: path_join_def)
qed

text \<open>
  Claim C10. For every source text, tool configuration and target platform, a text that
  \<open>applyCommonPatches\<close> returns does not begin with \<open>#!\<close>: it begins with the injected shell
  detection code, or with a \<open>use strict\<close> directive, in single or double quotes and with or
  without its semicolon, that the injected code follows. \<open>applyCommonPatches\<close> strips a
  leading shebang line: on a text that begins with \<open>#!\<close> and has a line feed, the marker, the
  injection and the shell-check bypass are applied to what follows the first line feed,
  and on any other text to the text itself. Whenever \<open>prepareSource\<close> returns a path, the
  file written at that path holds a text of this kind; and it does return one where the
  entry point is a regular file, the source directory is a directory, no directory stands
  at the prepared path, and \<open>new RegExp\<close> takes the entry-point pattern of the tool's prefix.
\<close>

theorem prepared_source_has_no_shebang:
  fixes RegExp :: regexp_constructor and content l rest c src :: string
    and toolConfig fs fs' sourceDir targetPlatform preparedPath msgs r
  defines "pre \<equiv> or_opt (cfg_envPrefix toolConfig) ''CLI_TOOL''"
    and "entry \<equiv> or_opt (cfg_entryPoint toolConfig) ''cli.js''"
  defines "pp \<equiv> path_join sourceDir
     (if targetPlatform = ''windows'' then basename_js entry @ ''-windows-prepared.js''
      else basename_js entry @ ''-prepared.js'')"
  shows
    "(applyCommonPatches RegExp content toolConfig = Inr c \<longrightarrow>
        \<not> prefix ''#!'' c \<and>
        (prefix SHELL_DETECTION_CODE c \<or>
         (\<exists>q q' sc. (q = CHR 0x27 \<or> q = CHR 0x22) \<and> (q' = CHR 0x27 \<or> q' = CHR 0x22) \<and>
            (sc = [] \<or> sc = '';'') \<and>
            prefix (q # ''use strict'' @ q' # sc @ SHELL_DETECTION_CODE) c))) \<and>
     (CHR 0x0A \<notin> set l \<longrightarrow>
        applyCommonPatches RegExp (''#!'' @ l @ [CHR 0x0A] @ rest) toolConfig =
          (case mark_bundled RegExp pre rest of
             Inl e \<Rightarrow> Inl e
           | Inr marked \<Rightarrow> Inr (bypass_shell_check (inject_shell_detection marked)))) \<and>
     (\<not> prefix ''#!'' content \<or> CHR 0x0A \<notin> set content \<longrightarrow>
        applyCommonPatches RegExp content toolConfig =
          (case mark_bundled RegExp pre content of
             Inl e \<Rightarrow> Inl e
           | Inr marked \<Rightarrow> Inr (bypass_shell_check (inject_shell_detection marked)))) \<and>
     (prepareSource RegExp fs sourceDir targetPlatform toolConfig = (Inr preparedPath, fs', msgs) \<longrightarrow>
        (\<exists>t. fs' preparedPath = Some (File t) \<and> \<not> prefix ''#!'' t \<and>
           (prefix SHELL_DETECTION_CODE t \<or>
            (\<exists>q q' sc. (q = CHR 0x27 \<or> q = CHR 0x22) \<and> (q' = CHR 0x27 \<or> q' = CHR 0x22) \<and>
               (sc = [] \<or> sc = '';'') \<and>
               prefix (q # ''use strict'' @ q' # sc @ SHELL_DETECTION_CODE) t)))) \<and>
     (RegExp (entrypoint_source pre) = Inr r \<and> fs (path_join sourceDir entry) = Some (File src) \<and>
      fs sourceDir = Some Dir \<and> fs pp \<noteq> Some Dir \<longrightarrow>
        (\<exists>t. prepareSource RegExp fs sourceDir targetPlatform toolConfig =
               (Inr pp, fs(pp \<mapsto> File t),
                [''Reading CLI source ('' @ entry @ '')...'', ''Adding embedded file imports...'']
                @ (if targetPlatform = ''windows'' then [''Applying Windows-specific patches...'']
                   else [])
                @ [''Applying common patches...'', ''Prepared source written to '' @ pp]) \<and>
             \<not> prefix ''#!'' t))"
proof (intro conjI impI)
  assume "applyCommonPatches RegExp content toolConfig = Inr c"
  then obtain y where y: "c = bypass_shell_check (inject_shell_detection y)"
    using common_patches_shape by blast
  show "\<not> prefix ''#!'' c"
    unfolding y by (rule injected_head(1))
  show "prefix SHELL_DETECTION_CODE c \<or>
         (\<exists>q q' sc. (q = CHR 0x27 \<or> q = CHR 0x22) \<and> (q' = CHR 0x27 \<or> q' = CHR 0x22) \<and>
            (sc = [] \<or> sc = '';'') \<and>
            prefix (q # ''use strict'' @ q' # sc @ SHELL_DETECTION_CODE) c)"
    unfolding y by (rule injected_head(2))
next
  assume "CHR 0x0A \<notin> set l"
  then have "strip_shebang (''#!'' @ l @ [CHR 0x0A] @ rest) = rest"
    by (rule strip_shebang_line)
  then show "applyCommonPatches RegExp (''#!'' @ l @ [CHR 0x0A] @ rest) toolConfig =
          (case mark_bundled RegExp pre rest of
             Inl e \<Rightarrow> Inl e
           | Inr marked \<Rightarrow> Inr (bypass_shell_check (inject_shell_detection marked)))"
    by (simp only: applyCommonPatches_def Let_def pre_def)
next
  assume "\<not> prefix ''#!'' content \<or> CHR 0x0A \<notin> set content"
  then have "strip_shebang content = content"
    by (rule strip_shebang_none)
  then show "applyCommonPatches RegExp content toolConfig =
          (case mark_bundled RegExp pre content of
             Inl e \<Rightarrow> Inl e
           | Inr marked \<Rightarrow> Inr (bypass_shell_check (inject_shell_detection marked)))"
    by (simp only: applyCommonPatches_def Let_def pre_def)
next
  assume "prepareSource RegExp fs sourceDir targetPlatform toolConfig = (Inr preparedPath, fs', msgs)"
  then obtain y where "fs' preparedPath = Some (File (bypass_shell_check (inject_shell_detection y)))"
    using prepared_file_shape by blast
  then show "\<exists>t. fs' preparedPath = Some (File t) \<and> \<not> prefix ''#!'' t \<and>
           (prefix SHELL_DETECTION_CODE t \<or>
            (\<exists>q q' sc. (q = CHR 0x27 \<or> q = CHR 0x22) \<and> (q' = CHR 0x27 \<or> q' = CHR 0x22) \<and>
               (sc = [] \<or> sc = '';'') \<and>
               prefix (q # ''use strict'' @ q' # sc @ SHELL_DETECTION_CODE) t))"
    using injected_head [of y] by blast
next
  assume a: "RegExp (entrypoint_source pre) = Inr r \<and> fs (path_join sourceDir entry) = Some (File src) \<and>
      fs sourceDir = Some Dir \<and> fs pp \<noteq> Some Dir"
  then have r: "RegExp (entrypoint_source (or_opt (cfg_envPrefix toolConfig) ''CLI_TOOL'')) = Inr r"
    unfolding pre_def by blast
  have s1: "fs (path_join sourceDir (or_opt (cfg_entryPoint toolConfig) ''cli.js'')) = Some (File src)"
    and s2: "fs sourceDir = Some Dir"
    and s3: "fs (path_join sourceDir
       (if targetPlatform = ''windows''
        then basename_js (or_opt (cfg_entryPoint toolConfig) ''cli.js'') @ ''-windows-prepared.js''
        else basename_js (or_opt (cfg_entryPoint toolConfig) ''cli.js'') @ ''-prepared.js'')) \<noteq> Some Dir"
    using a unfolding entry_def pp_def by blast+
  note ok = patches_ok [where RegExp = RegExp and toolConfig = toolConfig, OF r]
  obtain c2 where c2: "(if targetPlatform = ''windows''
               then applyWindowsPatches RegExp (addEmbeddedImports fs src sourceDir) toolConfig
               else Inr (addEmbeddedImports fs src sourceDir)) = Inr c2"
    using ok(5) by (cases "targetPlatform = ''windows''") simp_all
  obtain y where c3: "applyCommonPatches RegExp c2 toolConfig
      = Inr (bypass_shell_check (inject_shell_detection y))"
    using ok(4) by blast
  have "prepareSource RegExp fs sourceDir targetPlatform toolConfig =
     (Inr pp, fs(pp \<mapsto> File (bypass_shell_check (inject_shell_detection y))),
      [''Reading CLI source ('' @ entry @ '')...'', ''Adding embedded file imports...'']
      @ (if targetPlatform = ''windows'' then [''Applying Windows-specific patches...''] else [])
      @ [''Applying common patches...'', ''Prepared source written to '' @ pp])"
    unfolding entry_def pp_def using s1 s2 s3 c2 c3 by (rule prepareSource_success)
  then show "\<exists>t. prepareSource RegExp fs sourceDir targetPlatform toolConfig =
               (Inr pp, fs(pp \<mapsto> File t),
                [''Reading CLI source ('' @ entry @ '')...'', ''Adding embedded file imports...'']
                @ (if targetPlatform = ''windows'' then [''Applying Windows-specific patches...'']
                   else [])
                @ [''Applying common patches...'', ''Prepared source written to '' @ pp]) \<and>
             \<not> prefix ''#!'' t"
    using injected_head(1) [of y] by blast
qed

theorem prepared_source_has_no_shebang_witness:
  \<open>CHR 0x0A \<notin> set ''/usr/bin/env node'' \<and>
   applyCommonPatches example_RegExp marked_source None =
     Inr (SHELL_DETECTION_CODE
          @ ''process.env.CLI_TOOL_ENTRYPOINT="cli";process.env.CLI_TOOL_BUNDLED="1";''
          @ ''if(!J){J=__atomcli_detectShell()}run()'') \<and>
   \<not> prefix ''#!'' (SHELL_DETECTION_CODE
          @ ''process.env.CLI_TOOL_ENTRYPOINT="cli";process.env.CLI_TOOL_BUNDLED="1";''
          @ ''if(!J){J=__atomcli_detectShell()}run()'') \<and>
   \<not> prefix ''#!'' plain_source \<and>
   applyCommonPatches example_RegExp plain_source None = Inr (SHELL_DETECTION_CODE @ plain_source) \<and>
   (\<exists>r. example_RegExp (entrypoint_source ''CLI_TOOL'') = Inr r) \<and>
   source_fs ''core/claude-code/package/cli.js'' = Some (File marked_source) \<and>
   source_fs ''core/claude-code/package'' = Some Dir \<and>
   source_fs ''core/claude-code/package/cli-prepared.js'' \<noteq> Some Dir \<and>
   (\<exists>t. prepareSource example_RegExp source_fs ''core/claude-code/package'' ''linux'' None =
          (Inr ''core/claude-code/package/cli-prepared.js'',
           source_fs(''core/claude-code/package/cli-prepared.js'' \<mapsto> File t),
           [''Reading CLI source (cli.js)...'', ''Adding embedded file imports...'',
            ''Applying common patches...'',
            ''Prepared source written to core/claude-code/package/cli-prepared.js'']) \<and>
        \<not> prefix ''#!'' t \<and>
        (source_fs(''core/claude-code/package/cli-prepared.js'' \<mapsto> File t))
          ''core/claude-code/package/cli-prepared.js'' = Some (File t))\<close>
proof -
  define out where \<open>out = SHELL_DETECTION_CODE
          @ ''process.env.CLI_TOOL_ENTRYPOINT="cli";process.env.CLI_TOOL_BUNDLED="1";''
          @ ''if(!J){J=__atomcli_detectShell()}run()''\<close>
  have nl: "CHR 0x0A \<notin> set ''/usr/bin/env node''"
    by simp
  have ms: \<open>marked_source = ''#!'' @ ''/usr/bin/env node'' @ [CHR 0x0A]
     @ (''process.env.CLAUDE_CODE_ENTRYPOINT="cli";''
        @ ''if(!J){let F="No suitable shell found. Install bash";throw new Error(F)}run()'')\<close>
    by (simp add: marked_source_def)
  have np: "\<not> prefix ''#!'' plain_source"
    by (simp add: plain_source_def)
  have e: "or_opt (cfg_entryPoint None) ''cli.js'' = ''cli.js''"
    by (simp add: cfg_entryPoint_def or_opt_def)
  have pp: "path_join ''core/claude-code/package''
      (if ''linux'' = ''windows'' then basename_js ''cli.js'' @ ''-windows-prepared.js''
       else basename_js ''cli.js'' @ ''-prepared.js'') = ''core/claude-code/package/cli-prepared.js''"
    by (simp add: path_join_def basename_js_def suffix_def)
  have ej: "path_join ''core/claude-code/package'' ''cli.js'' = ''core/claude-code/package/cli.js''"
    by (simp add: path_join_def)
  have f1: "source_fs ''core/claude-code/package/cli.js'' = Some (File marked_source)"
    by (simp add: source_fs_def)
  have f2: "source_fs ''core/claude-code/package'' = Some Dir"
    by (simp add: source_fs_def)
  have f3: "source_fs ''core/claude-code/package/cli-prepared.js'' \<noteq> Some Dir"
    by (simp add: source_fs_def)
  note marked = prepared_source_has_no_shebang [where RegExp = example_RegExp and toolConfig = None
      and content = marked_source and c = out and l = "''/usr/bin/env node''"
      and rest = \<open>''process.env.CLAUDE_CODE_ENTRYPOINT="cli";''
        @ ''if(!J){let F="No suitable shell found. Install bash";throw new Error(F)}run()''\<close>
      and fs = source_fs and sourceDir = "''core/claude-code/package''"
      and targetPlatform = "''linux''" and src = marked_source
      and r = \<open>exec_of (map (\<lambda>c. One (AnyOf [c])) ''process.env.CLI_TOOL_ENTRYPOINT="cli"'')\<close>,
      unfolded default_prefix e pp ej ms [symmetric]]
  note plain = prepared_source_has_no_shebang [where RegExp = example_RegExp and toolConfig = None
      and content = plain_source, unfolded default_prefix]
  have \<open>applyCommonPatches example_RegExp marked_source None =
      (case mark_bundled example_RegExp ''CLI_TOOL''
              (''process.env.CLAUDE_CODE_ENTRYPOINT="cli";''
               @ ''if(!J){let F="No suitable shell found. Install bash";throw new Error(F)}run()'') of
         Inl e \<Rightarrow> Inl e
       | Inr marked \<Rightarrow> Inr (bypass_shell_check (inject_shell_detection marked)))\<close>
    using marked nl by blast
  then have a: "applyCommonPatches example_RegExp marked_source None = Inr out"
    unfolding marked_body_bundled sum.case marked_body_injected out_def .
  have b: "\<not> prefix ''#!'' out"
    using marked a by blast
  have "applyCommonPatches example_RegExp plain_source None =
      (case mark_bundled example_RegExp ''CLI_TOOL'' plain_source of
         Inl e \<Rightarrow> Inl e
       | Inr marked \<Rightarrow> Inr (bypass_shell_check (inject_shell_detection marked)))"
    using plain np by blast
  then have c: "applyCommonPatches example_RegExp plain_source None = Inr (SHELL_DETECTION_CODE @ plain_source)"
    unfolding plain_bundled sum.case plain_injected .
  have d: "\<exists>t. prepareSource example_RegExp source_fs ''core/claude-code/package'' ''linux'' None =
          (Inr ''core/claude-code/package/cli-prepared.js'',
           source_fs(''core/claude-code/package/cli-prepared.js'' \<mapsto> File t),
           [''Reading CLI source ('' @ ''cli.js'' @ '')...'', ''Adding embedded file imports...'']
           @ (if ''linux'' = ''windows'' then [''Applying Windows-specific patches...''] else [])
           @ [''Applying common patches...'',
              ''Prepared source written to '' @ ''core/claude-code/package/cli-prepared.js'']) \<and>
        \<not> prefix ''#!'' t"
    using marked cli_tool_pattern f1 f2 f3 by blast
  then have d': "\<exists>t. prepareSource example_RegExp source_fs ''core/claude-code/package'' ''linux'' None =
          (Inr ''core/claude-code/package/cli-prepared.js'',
           source_fs(''core/claude-code/package/cli-prepared.js'' \<mapsto> File t),
           [''Reading CLI source (cli.js)...'', ''Adding embedded file imports...'',
            ''Applying common patches...'',
            ''Prepared source written to core/claude-code/package/cli-prepared.js'']) \<and>
        \<not> prefix ''#!'' t \<and>
        (source_fs(''core/claude-code/package/cli-prepared.js'' \<mapsto> File t))
          ''core/claude-code/package/cli-prepared.js'' = Some (File t)"
    by simp
  show ?thesis
    using nl a b np c cli_tool_pattern f1 f2 f3 d' unfolding out_def by blast
qed

lemma literal_ones:
  "rx_match (map (\<lambda>c. One (AnyOf [c])) l @ q) s = rx_match (Lit l # q) s"
proof (induction l arbitrary: s)
  case Nil
  show ?case by simp
next
  case (Cons a l)
  show ?case
  proof (cases s)
    case Nil
    then show ?thesis by simp
  next
    case (Cons c cs)
    show ?thesis
      unfolding Cons using Cons.IH [of cs] by simp
  qed
qed

lemma search_literal_ones:
  "rx_search (map (\<lambda>c. One (AnyOf [c])) l) s = rx_search [Lit l] s"
  using literal_ones [of l "[]"] by (induction s) simp_all

lemma exec_literal_ones: "exec_of (map (\<lambda>c. One (AnyOf [c])) l) = exec_of [Lit l]"
  by (rule ext) (simp add: exec_of_def search_literal_ones)

lemma header_unmarked: \<open>no_start ''process.env.'' (windowsHeader ''cli-tool'')\<close>
  unfolding windowsHeader_def by (rule no_start_unlines) (simp_all add: rule_line_def eval_nat_numeral)


lemma header_no_import: \<open>no_start ''import.meta.url'' (windowsHeader ''cli-tool'')\<close>
  unfolding windowsHeader_def by (rule no_start_unlines) (simp_all add: rule_line_def eval_nat_numeral)

lemma header_no_dev_null: \<open>no_start ''"/dev/null"'' (windowsHeader ''cli-tool'')\<close>
  unfolding windowsHeader_def by (rule no_start_unlines) (simp_all add: rule_line_def eval_nat_numeral)

lemma header_no_source: \<open>no_start ''source ${'' (windowsHeader ''cli-tool'')\<close>
  unfolding windowsHeader_def by (rule no_start_unlines) (simp_all add: rule_line_def eval_nat_numeral)

lemma header_no_eval: \<open>no_start ''eval ${'' (windowsHeader ''cli-tool'')\<close>
  unfolding windowsHeader_def by (rule no_start_unlines) (simp_all add: rule_line_def eval_nat_numeral)

lemma no_start_longer: "no_start l h \<Longrightarrow> no_start (l @ x) h"
  unfolding no_start_iff starts_like_iff
  by (metis prefix_append prefix_order.trans prefixI)

lemma search_after:
  assumes "no_start l h" "rx_search (Lit l # q) x = None"
  shows "rx_search (Lit l # q) (h @ x) = None"
  using shift_search [OF assms(1), of q x] assms(2) by simp

lemma replace_all_none: "rx_search p s = None \<Longrightarrow> replace_all p f s = s"
  by (subst replace_all.simps) simp

lemma windows_plain:
  "windows_compat ''cli-tool'' plain_source = windowsHeader ''cli-tool'' @ plain_source"
proof -
  have m: "match_start shebang_line plain_source = None"
    by (simp add: match_start_def shebang_line_def plain_source_def)
  have a: "rx_search [Lit ''import.meta.url''] (windowsHeader ''cli-tool'' @ plain_source) = None"
    by (rule search_after [OF header_no_import]) (simp add: plain_source_def)
  have b: \<open>rx_search [Lit ''"/dev/null"''] (windowsHeader ''cli-tool'' @ plain_source) = None\<close>
    by (rule search_after [OF header_no_dev_null]) (simp add: plain_source_def)
  have c: "rx_search [Lit ''source ${'', Plus Word, Lit ''}'']
      (windowsHeader ''cli-tool'' @ plain_source) = None"
    by (rule search_after [OF header_no_source]) (simp add: plain_source_def)
  have d: "rx_search [Lit ''eval ${'', Plus Word, Lit ''}'']
      (windowsHeader ''cli-tool'' @ plain_source) = None"
    by (rule search_after [OF header_no_eval]) (simp add: plain_source_def)
  show ?thesis
    unfolding windows_compat_def Let_def m option.case
    by (simp only: replace_all_none [OF a] replace_all_none [OF b] replace_all_none [OF c]
        replace_all_none [OF d])
qed

lemma windows_plain_unmarked:
  \<open>list_all (\<lambda>pat. pat (windowsHeader ''cli-tool'' @ plain_source) = None)
     [exec_of (map (\<lambda>c. One (AnyOf [c])) ''process.env.CLI_TOOL_ENTRYPOINT="cli"''),
      exec_of claude_entrypoint, exec_of any_entrypoint]\<close>
proof -
  have a: \<open>rx_search [Lit ''process.env.CLI_TOOL_ENTRYPOINT="cli"'']
      (windowsHeader ''cli-tool'' @ plain_source) = None\<close>
    using no_start_longer [OF header_unmarked, of \<open>''CLI_TOOL_ENTRYPOINT="cli"''\<close>]
    by (intro search_after) (simp_all add: plain_source_def)
  have b: \<open>rx_search [Lit ''process.env.CLAUDE_CODE_ENTRYPOINT="cli"'']
      (windowsHeader ''cli-tool'' @ plain_source) = None\<close>
    using no_start_longer [OF header_unmarked, of \<open>''CLAUDE_CODE_ENTRYPOINT="cli"''\<close>]
    by (intro search_after) (simp_all add: plain_source_def)
  have c: \<open>rx_search [Lit ''process.env.'', Plus Word, Lit ''_ENTRYPOINT="cli"'']
      (windowsHeader ''cli-tool'' @ plain_source) = None\<close>
    by (rule search_after [OF header_unmarked]) (simp add: plain_source_def)
  show ?thesis
    unfolding exec_literal_ones
    by (simp add: exec_of_def claude_entrypoint_def any_entrypoint_def a b c)
qed

lemma default_binary: "or_opt (cfg_binaryName None) ''cli-tool'' = ''cli-tool''"
  by (simp add: cfg_binaryName_def or_opt_def)

text \<open>
  Claim C4, as amended. Take a tool configuration whose prefix gives an entry-point pattern
  that \<open>new RegExp\<close> takes. The patching functions then return a text, whatever the source
  text holds. Where none of the three entry-point patterns finds a match in a text,
  \<open>mark_bundled\<close> and \<open>mark_windows\<close> return the text as it is; where the shell-check pattern
  finds none, \<open>bypass_shell_check\<close> returns the text as it is. So \<open>applyCommonPatches\<close> and
  \<open>applyWindowsPatches\<close> return normally with the substitution left out. On an entry point
  that is a regular file, in a source directory where the prepared file can be written,
  \<open>prepareSource\<close> returns the prepared path, writes the prepared file, and reports the same
  messages whatever matched: none of them tells of a missed pattern.
\<close>

theorem unmatched_patch_is_skipped:
  fixes RegExp :: regexp_constructor and content x y z src :: string
    and toolConfig fs sourceDir targetPlatform r
  defines "pre \<equiv> or_opt (cfg_envPrefix toolConfig) ''CLI_TOOL''"
    and "entry \<equiv> or_opt (cfg_entryPoint toolConfig) ''cli.js''"
    and "pats \<equiv> [r, exec_of claude_entrypoint, exec_of any_entrypoint]"
  defines "pp \<equiv> path_join sourceDir
     (if targetPlatform = ''windows'' then basename_js entry @ ''-windows-prepared.js''
      else basename_js entry @ ''-prepared.js'')"
  assumes compiles: "RegExp (entrypoint_source pre) = Inr r"
  shows
    "entrypointPatterns RegExp pre = Inr pats \<and>
     ((\<forall>pat\<in>set pats. pat x = None) \<longrightarrow> mark_bundled RegExp pre x = Inr x) \<and>
     (\<not> rx_test shellCheckPattern y \<longrightarrow> bypass_shell_check y = y) \<and>
     ((\<forall>pat\<in>set pats. pat z = None) \<longrightarrow> mark_windows RegExp pre z = Inr z) \<and>
     (\<exists>c. applyCommonPatches RegExp content toolConfig = Inr c) \<and>
     ((\<forall>pat\<in>set pats. pat (strip_shebang content) = None) \<and>
      \<not> rx_test shellCheckPattern (inject_shell_detection (strip_shebang content)) \<longrightarrow>
        applyCommonPatches RegExp content toolConfig
          = Inr (inject_shell_detection (strip_shebang content))) \<and>
     (\<exists>c. applyWindowsPatches RegExp content toolConfig = Inr c) \<and>
     ((\<forall>pat\<in>set pats.
          pat (windows_compat (or_opt (cfg_binaryName toolConfig) ''cli-tool'') content) = None) \<longrightarrow>
        applyWindowsPatches RegExp content toolConfig
          = Inr (windows_compat (or_opt (cfg_binaryName toolConfig) ''cli-tool'') content)) \<and>
     (fs (path_join sourceDir entry) = Some (File src) \<and> fs sourceDir = Some Dir \<and>
      fs pp \<noteq> Some Dir \<longrightarrow>
        (\<exists>c2 c3.
           (if targetPlatform = ''windows''
            then applyWindowsPatches RegExp (addEmbeddedImports fs src sourceDir) toolConfig
            else Inr (addEmbeddedImports fs src sourceDir)) = Inr c2 \<and>
           applyCommonPatches RegExp c2 toolConfig = Inr c3 \<and>
           prepareSource RegExp fs sourceDir targetPlatform toolConfig =
             (Inr pp, fs(pp \<mapsto> File c3),
              [''Reading CLI source ('' @ entry @ '')...'', ''Adding embedded file imports...'']
              @ (if targetPlatform = ''windows'' then [''Applying Windows-specific patches...'']
                 else [])
              @ [''Applying common patches...'', ''Prepared source written to '' @ pp])))"
proof -
  have r: "RegExp (entrypoint_source (or_opt (cfg_envPrefix toolConfig) ''CLI_TOOL'')) = Inr r"
    using compiles unfolding pre_def .
  note ok = patches_ok [where RegExp = RegExp and toolConfig = toolConfig, OF r,
      folded pre_def pats_def]
  show ?thesis
  proof (intro conjI impI)
    show "entrypointPatterns RegExp pre = Inr pats"
      by (rule ok(1))
    show "mark_bundled RegExp pre x = Inr x" if "\<forall>pat\<in>set pats. pat x = None"
      using that by (simp only: ok(2) replace_first_matching_none)
    show "bypass_shell_check y = y" if "\<not> rx_test shellCheckPattern y"
      using that by (simp add: bypass_shell_check_def)
    show "mark_windows RegExp pre z = Inr z" if "\<forall>pat\<in>set pats. pat z = None"
      using that by (simp only: ok(3) replace_first_matching_none)
    show "\<exists>c. applyCommonPatches RegExp content toolConfig = Inr c"
      using ok(4) by blast
    show "applyCommonPatches RegExp content toolConfig
          = Inr (inject_shell_detection (strip_shebang content))"
      if "(\<forall>pat\<in>set pats. pat (strip_shebang content) = None) \<and>
        \<not> rx_test shellCheckPattern (inject_shell_detection (strip_shebang content))"
      using that by (simp add: ok(4) replace_first_matching_none bypass_shell_check_def)
    show "\<exists>c. applyWindowsPatches RegExp content toolConfig = Inr c"
      using ok(5) by blast
    show "applyWindowsPatches RegExp content toolConfig
          = Inr (windows_compat (or_opt (cfg_binaryName toolConfig) ''cli-tool'') content)"
      if "\<forall>pat\<in>set pats.
          pat (windows_compat (or_opt (cfg_binaryName toolConfig) ''cli-tool'') content) = None"
      using that by (simp only: ok(5) replace_first_matching_none)
    show "\<exists>c2 c3.
           (if targetPlatform = ''windows''
            then applyWindowsPatches RegExp (addEmbeddedImports fs src sourceDir) toolConfig
            else Inr (addEmbeddedImports fs src sourceDir)) = Inr c2 \<and>
           applyCommonPatches RegExp c2 toolConfig = Inr c3 \<and>
           prepareSource RegExp fs sourceDir targetPlatform toolConfig =
             (Inr pp, fs(pp \<mapsto> File c3),
              [''Reading CLI source ('' @ entry @ '')...'', ''Adding embedded file imports...'']
              @ (if targetPlatform = ''windows'' then [''Applying Windows-specific patches...'']
                 else [])
              @ [''Applying common patches...'', ''Prepared source written to '' @ pp])"
      if a: "fs (path_join sourceDir entry) = Some (File src) \<and> fs sourceDir = Some Dir \<and>
        fs pp \<noteq> Some Dir"
    proof -
      have s1: "fs (path_join sourceDir (or_opt (cfg_entryPoint toolConfig) ''cli.js'')) = Some (File src)"
        and s2: "fs sourceDir = Some Dir"
        and s3: "fs (path_join sourceDir
           (if targetPlatform = ''windows''
            then basename_js (or_opt (cfg_entryPoint toolConfig) ''cli.js'') @ ''-windows-prepared.js''
            else basename_js (or_opt (cfg_entryPoint toolConfig) ''cli.js'') @ ''-prepared.js''))
            \<noteq> Some Dir"
        using a unfolding entry_def pp_def by blast+
      obtain c2 where c2: "(if targetPlatform = ''windows''
               then applyWindowsPatches RegExp (addEmbeddedImports fs src sourceDir) toolConfig
               else Inr (addEmbeddedImports fs src sourceDir)) = Inr c2"
        using ok(5) by (cases "targetPlatform = ''windows''") simp_all
      obtain c3 where c3: "applyCommonPatches RegExp c2 toolConfig = Inr c3"
        using ok(4) by blast
      have "prepareSource RegExp fs sourceDir targetPlatform toolConfig =
             (Inr pp, fs(pp \<mapsto> File c3),
              [''Reading CLI source ('' @ entry @ '')...'', ''Adding embedded file imports...'']
              @ (if targetPlatform = ''windows'' then [''Applying Windows-specific patches...'']
                 else [])
              @ [''Applying common patches...'', ''Prepared source written to '' @ pp])"
        unfolding entry_def pp_def using s1 s2 s3 c2 c3 by (rule prepareSource_success)
      then show ?thesis
        using c2 c3 by blast
    qed
  qed
qed

theorem unmatched_patch_is_skipped_witness:
  \<open>\<exists>r. example_RegExp (entrypoint_source ''CLI_TOOL'') = Inr r \<and>
     list_all (\<lambda>pat. pat plain_source = None) [r, exec_of claude_entrypoint, exec_of any_entrypoint] \<and>
     \<not> rx_test shellCheckPattern (SHELL_DETECTION_CODE @ plain_source) \<and>
     mark_bundled example_RegExp ''CLI_TOOL'' plain_source = Inr plain_source \<and>
     mark_windows example_RegExp ''CLI_TOOL'' plain_source = Inr plain_source \<and>
     bypass_shell_check (SHELL_DETECTION_CODE @ plain_source) = SHELL_DETECTION_CODE @ plain_source \<and>
     applyCommonPatches example_RegExp plain_source None = Inr (SHELL_DETECTION_CODE @ plain_source) \<and>
     list_all (\<lambda>pat. pat (windowsHeader ''cli-tool'' @ plain_source) = None)
       [r, exec_of claude_entrypoint, exec_of any_entrypoint] \<and>
     applyWindowsPatches example_RegExp plain_source None
       = Inr (windowsHeader ''cli-tool'' @ plain_source) \<and>
     cached_fs ''core/claude-code/package/cli.js'' = Some (File plain_source) \<and>
     cached_fs ''core/claude-code/package'' = Some Dir \<and>
     cached_fs ''core/claude-code/package/cli-prepared.js'' \<noteq> Some Dir \<and>
     (\<exists>c. prepareSource example_RegExp cached_fs ''core/claude-code/package'' ''linux'' None =
        (Inr ''core/claude-code/package/cli-prepared.js'',
         cached_fs(''core/claude-code/package/cli-prepared.js'' \<mapsto> File c),
         [''Reading CLI source (cli.js)...'', ''Adding embedded file imports...'',
          ''Applying common patches...'',
          ''Prepared source written to core/claude-code/package/cli-prepared.js'']))\<close>
proof -
  define r where \<open>r = exec_of (map (\<lambda>c. One (AnyOf [c])) ''process.env.CLI_TOOL_ENTRYPOINT="cli"'')\<close>
  have cp: "example_RegExp (entrypoint_source ''CLI_TOOL'') = Inr r"
    unfolding r_def by (rule cli_tool_pattern)
  have e: "or_opt (cfg_entryPoint None) ''cli.js'' = ''cli.js''"
    by (simp add: cfg_entryPoint_def or_opt_def)
  have pp: "path_join ''core/claude-code/package''
      (if ''linux'' = ''windows'' then basename_js ''cli.js'' @ ''-windows-prepared.js''
       else basename_js ''cli.js'' @ ''-prepared.js'') = ''core/claude-code/package/cli-prepared.js''"
    by (simp add: path_join_def basename_js_def suffix_def)
  have ej: "path_join ''core/claude-code/package'' ''cli.js'' = ''core/claude-code/package/cli.js''"
    by (simp add: path_join_def)
  have f1: "cached_fs ''core/claude-code/package/cli.js'' = Some (File plain_source)"
    by (simp add: cached_fs_def plain_source_def)
  have f2: "cached_fs ''core/claude-code/package'' = Some Dir"
    by (simp add: cached_fs_def)
  have f3: "cached_fs ''core/claude-code/package/cli-prepared.js'' \<noteq> Some Dir"
    by (simp add: cached_fs_def)
  have h1: "list_all (\<lambda>pat. pat plain_source = None) [r, exec_of claude_entrypoint, exec_of any_entrypoint]"
    unfolding r_def by (rule plain_unmarked)
  then have h2: "\<forall>pat\<in>set [r, exec_of claude_entrypoint, exec_of any_entrypoint]. pat plain_source = None"
    by (simp only: list_all_iff)
  note inst = unmatched_patch_is_skipped [where RegExp = example_RegExp and toolConfig = None
      and x = plain_source and y = "SHELL_DETECTION_CODE @ plain_source" and z = plain_source
      and content = plain_source and fs = cached_fs and sourceDir = "''core/claude-code/package''"
      and targetPlatform = "''linux''" and src = plain_source, unfolded default_prefix, OF cp,
      unfolded e pp ej plain_strip plain_inject default_binary windows_plain]
  have h3: "list_all (\<lambda>pat. pat (windowsHeader ''cli-tool'' @ plain_source) = None)
      [r, exec_of claude_entrypoint, exec_of any_entrypoint]"
    unfolding r_def by (rule windows_plain_unmarked)
  then have h4: "\<forall>pat\<in>set [r, exec_of claude_entrypoint, exec_of any_entrypoint].
      pat (windowsHeader ''cli-tool'' @ plain_source) = None"
    by (simp only: list_all_iff)
  have w: "applyWindowsPatches example_RegExp plain_source None
      = Inr (windowsHeader ''cli-tool'' @ plain_source)"
    using inst h4 by blast
  have a: "mark_bundled example_RegExp ''CLI_TOOL'' plain_source = Inr plain_source"
    and b: "mark_windows example_RegExp ''CLI_TOOL'' plain_source = Inr plain_source"
    and c: "bypass_shell_check (SHELL_DETECTION_CODE @ plain_source) = SHELL_DETECTION_CODE @ plain_source"
    and d: "applyCommonPatches example_RegExp plain_source None = Inr (SHELL_DETECTION_CODE @ plain_source)"
    using inst h2 plain_no_check by blast+
  have "\<exists>c2 c3. prepareSource example_RegExp cached_fs ''core/claude-code/package'' ''linux'' None =
        (Inr ''core/claude-code/package/cli-prepared.js'',
         cached_fs(''core/claude-code/package/cli-prepared.js'' \<mapsto> File c3),
         [''Reading CLI source ('' @ ''cli.js'' @ '')...'', ''Adding embedded file imports...'']
         @ (if ''linux'' = ''windows'' then [''Applying Windows-specific patches...''] else [])
         @ [''Applying common patches...'',
            ''Prepared source written to '' @ ''core/claude-code/package/cli-prepared.js''])"
    using inst f1 f2 f3 by blast
  then have p: "\<exists>c. prepareSource example_RegExp cached_fs ''core/claude-code/package'' ''linux'' None =
        (Inr ''core/claude-code/package/cli-prepared.js'',
         cached_fs(''core/claude-code/package/cli-prepared.js'' \<mapsto> File c),
         [''Reading CLI source (cli.js)...'', ''Adding embedded file imports...'',
          ''Applying common patches...'',
          ''Prepared source written to core/claude-code/package/cli-prepared.js''])"
    by simp
  show ?thesis
    using cp h1 plain_no_check a b c d h3 w f1 f2 f3 p by blast
qed

text \<open>
  Claim C4 as stated fails. A tool whose prefix is \<open>A(\<close> gives a pattern source with a
  group that nothing closes. On a source text in which no pattern could find a match,
  \<open>applyCommonPatches\<close> and \<open>applyWindowsPatches\<close> throw the \<open>SyntaxError\<close> of \<open>new RegExp\<close>,
  and \<open>prepareSource\<close> rejects with it after its third message, with no prepared file
  written.
\<close>

theorem unmatched_patch_is_skipped_counterexample:
  \<open>or_opt (cfg_envPrefix unescaped_config) ''CLI_TOOL'' = ''A('' \<and>
   example_RegExp (entrypoint_source ''A('') =
     Inl (SyntaxError (''Invalid regular expression: /process'' @ [CHR 0x5C] @ ''.env''
            @ [CHR 0x5C] @ ''.A(_ENTRYPOINT="cli"/: Unterminated group'')) \<and>
   exec_of claude_entrypoint plain_source = None \<and>
   exec_of any_entrypoint plain_source = None \<and>
   rx_search shellCheckPattern plain_source = None \<and>
   applyCommonPatches example_RegExp plain_source unescaped_config =
     Inl (SyntaxError (''Invalid regular expression: /process'' @ [CHR 0x5C] @ ''.env''
            @ [CHR 0x5C] @ ''.A(_ENTRYPOINT="cli"/: Unterminated group'')) \<and>
   applyWindowsPatches example_RegExp plain_source unescaped_config =
     Inl (SyntaxError (''Invalid regular expression: /process'' @ [CHR 0x5C] @ ''.env''
            @ [CHR 0x5C] @ ''.A(_ENTRYPOINT="cli"/: Unterminated group'')) \<and>
   cached_fs ''core/claude-code/package/cli.js'' = Some (File plain_source) \<and>
   cached_fs ''core/claude-code/package'' = Some Dir \<and>
   cached_fs ''core/claude-code/package/cli-prepared.js'' = None \<and>
   prepareSource example_RegExp cached_fs ''core/claude-code/package'' ''linux'' unescaped_config =
     (Inl (SyntaxError (''Invalid regular expression: /process'' @ [CHR 0x5C] @ ''.env''
             @ [CHR 0x5C] @ ''.A(_ENTRYPOINT="cli"/: Unterminated group'')),
      cached_fs,
      [''Reading CLI source (cli.js)...'', ''Adding embedded file imports...'',
       ''Applying common patches...''])\<close>
proof -
  have pre: "or_opt (cfg_envPrefix unescaped_config) ''CLI_TOOL'' = ''A(''"
    by (simp add: unescaped_config_def cfg_envPrefix_def or_opt_def)
  have e: "or_opt (cfg_entryPoint unescaped_config) ''cli.js'' = ''cli.js''"
    by (simp add: unescaped_config_def cfg_entryPoint_def or_opt_def)
  have f1: "cached_fs ''core/claude-code/package/cli.js'' = Some (File plain_source)"
    by (simp add: cached_fs_def plain_source_def)
  have f1': "cached_fs (path_join ''core/claude-code/package''
      (or_opt (cfg_entryPoint unescaped_config) ''cli.js'')) = Some (File plain_source)"
    unfolding e using f1 by (simp add: path_join_def)
  have f2: "cached_fs ''core/claude-code/package'' = Some Dir"
    by (simp add: cached_fs_def)
  have f3: "cached_fs ''core/claude-code/package/cli-prepared.js'' = None"
    by (simp add: cached_fs_def)
  have n: "exec_of claude_entrypoint plain_source = None" "exec_of any_entrypoint plain_source = None"
      "rx_search shellCheckPattern plain_source = None"
    by (simp_all add: exec_of_def claude_entrypoint_def any_entrypoint_def shellCheckPattern_def
        plain_source_def)
  note bad = unescaped_pattern
  have p: \<open>prepareSource example_RegExp cached_fs ''core/claude-code/package'' ''linux'' unescaped_config =
     (Inl (SyntaxError (''Invalid regular expression: /process'' @ [CHR 0x5C] @ ''.env''
             @ [CHR 0x5C] @ ''.A(_ENTRYPOINT="cli"/: Unterminated group'')),
      cached_fs,
      [''Reading CLI source (cli.js)...'', ''Adding embedded file imports...'',
       ''Applying common patches...''])\<close>
    using prepareSource_throws [where RegExp = example_RegExp and toolConfig = unescaped_config
        and fs = cached_fs and sourceDir = "''core/claude-code/package''" and src = plain_source
        and targetPlatform = "''linux''", OF f1' bad]
    unfolding e by simp
  show ?thesis
    using pre bad [unfolded pre] n f1 f2 f3 p
      patches_throw [where RegExp = example_RegExp and toolConfig = unescaped_config, OF bad,
        of plain_source]
    by simp
qed

section \<open>Properties of the build orchestrator\<close>











section \<open>Properties of the fetcher and the npm download\<close>

lemma settle_fs: "dl_fs (settle v s) = dl_fs s"
  by (simp add: settle_def)

lemma mkdir_frame:
  assumes "mkdirSync_recursive fs d = Inr fs1" "q \<noteq> d" "q \<notin> set (ancestors d)"
  shows "fs1 q = fs q"
  using assms by (auto simp: mkdirSync_recursive_def split: if_splits)

lemma write_frame:
  assumes "writeFileSync fs p c = Inr fs1" "q \<noteq> p"
  shows "fs1 q = fs q"
  using assms by (auto simp: writeFileSync_def split: if_splits)

lemma unlink_quietly_frame: "q \<noteq> p \<Longrightarrow> unlink_quietly fs p q = fs q"
  by (auto simp: unlink_quietly_def unlinkSync_def split: option.splits node.splits)

lemma on_event_frame:
  assumes "q \<noteq> destPath" "q \<noteq> dirname destPath" "q \<notin> set (ancestors (dirname destPath))"
  shows "dl_fs (on_event destPath s ev) q = dl_fs s q"
proof (cases ev)
  case (Response code msg loc)
  show ?thesis
  proof (cases "\<not> existsSync (dl_fs s) (dirname destPath)")
    case True
    show ?thesis
    proof (cases "mkdirSync_recursive (dl_fs s) (dirname destPath)")
      case (Inl e)
      then show ?thesis using True by (simp add: Response settle_fs)
    next
      case (Inr fs1)
      have a: "fs1 q = dl_fs s q"
        using Inr assms(2,3) by (rule mkdir_frame)
      show ?thesis
      proof (cases "writeFileSync fs1 destPath []")
        case (Inl e)
        then show ?thesis using True Inr a by (simp add: Response settle_fs)
      next
        case w: (Inr fs2)
        have "fs2 q = fs1 q" using w assms(1) by (rule write_frame)
        then show ?thesis using True Inr w a by (simp add: Response settle_fs)
      qed
    qed
  next
    case False
    show ?thesis
    proof (cases "writeFileSync (dl_fs s) destPath []")
      case (Inl e)
      then show ?thesis using False by (simp add: Response settle_fs)
    next
      case w: (Inr fs2)
      have "fs2 q = dl_fs s q" using w assms(1) by (rule write_frame)
      then show ?thesis using False w by (simp add: Response settle_fs)
    qed
  qed
next
  case (Data chunk)
  then show ?thesis using assms(1) by (simp split: option.splits node.splits)
next
  case Finish
  then show ?thesis by (simp add: settle_fs)
next
  case (StreamError msg)
  then show ?thesis using assms(1) by (simp add: unlink_quietly_frame settle_fs)
next
  case (RequestError msg)
  then show ?thesis by (simp add: settle_fs)
next
  case Timeout
  then show ?thesis by (simp add: settle_fs)
qed

lemma downloadFile_frame:
  assumes "q \<noteq> destPath" "q \<noteq> dirname destPath" "q \<notin> set (ancestors (dirname destPath))"
  shows "dl_fs (downloadFile fs destPath events) q = fs q"
proof -
  have "dl_fs (foldl (\<lambda>s ev. if uncaught s \<noteq> None then s else on_event destPath s ev) s0 events) q
      = dl_fs s0 q" for s0
  proof (induction events arbitrary: s0)
    case Nil
    show ?case by simp
  next
    case (Cons ev evs)
    show ?case
      using Cons.IH on_event_frame [OF assms] by simp
  qed
  then show ?thesis by (simp add: downloadFile_def)
qed


text \<open>
  Claim C2 says that on every transport error the partly written destination file is
  removed before the promise rejects. The handler of a write stream error does remove it.
  The timeout handler and the handler of a request error do not: when a response with status
  200 has arrived, a chunk has been written and the socket then stalls or the connection is
  reset, the promise rejects and the partial file stays.
\<close>

theorem downloadFile_timeout_keeps_partial_file:
  "promise (downloadFile fresh_fs ''core/claude-code/claude-code-2.0.76.tgz''
      [Response 200 ''OK'' None, Data ''partial'', Timeout]) = Some (Rejected ''Download timeout'') \<and>
   dl_fs (downloadFile fresh_fs ''core/claude-code/claude-code-2.0.76.tgz''
      [Response 200 ''OK'' None, Data ''partial'', Timeout]) ''core/claude-code/claude-code-2.0.76.tgz''
     = Some (File ''partial'') \<and>
   promise (downloadFile fresh_fs ''core/claude-code/claude-code-2.0.76.tgz''
      [Response 200 ''OK'' None, Data ''partial'', RequestError ''read ECONNRESET''])
     = Some (Rejected ''read ECONNRESET'') \<and>
   dl_fs (downloadFile fresh_fs ''core/claude-code/claude-code-2.0.76.tgz''
      [Response 200 ''OK'' None, Data ''partial'', RequestError ''read ECONNRESET''])
      ''core/claude-code/claude-code-2.0.76.tgz'' = Some (File ''partial'') \<and>
   promise (downloadFile fresh_fs ''core/claude-code/claude-code-2.0.76.tgz''
      [Response 200 ''OK'' None, Data ''partial'', StreamError ''ENOSPC: no space left on device''])
     = Some (Rejected ''ENOSPC: no space left on device'') \<and>
   dl_fs (downloadFile fresh_fs ''core/claude-code/claude-code-2.0.76.tgz''
      [Response 200 ''OK'' None, Data ''partial'', StreamError ''ENOSPC: no space left on device''])
      ''core/claude-code/claude-code-2.0.76.tgz'' = None"
  by code_simp

lemma tarball_name_differs:
  "replace_slash packageName @ ''-'' @ ver @ ''.tgz'' \<noteq> MANIFEST_FILENAME"
proof
  assume "replace_slash packageName @ ''-'' @ ver @ ''.tgz'' = MANIFEST_FILENAME"
  then have "last (replace_slash packageName @ ''-'' @ ver @ ''.tgz'') = last MANIFEST_FILENAME"
    by simp
  then show False by (simp add: MANIFEST_FILENAME_def)
qed

lemma dirname_join:
  assumes "CHR ''/'' \<notin> set n"
  shows "dirname (path_join d n) = (if d = [] then ''/'' else d)"
  using assms by (simp add: dirname_def path_join_def ancestors_join)

text \<open>
  Claim C7. Take an npm download for which the registry gives a tarball and a shasum, that
  is not skipped by the cache, and whose transfer ends with the tarball on disk. If the
  SHA-1 digest of the tarball differs from the shasum (both in lower case),
  \<open>downloadFromNpm\<close> throws \<open>Checksum verification failed for ...\<close> and the tarball is gone.
  The file system is otherwise the one before the call, up to the directories above the
  tarball that the transfer may have created: the extractor and \<open>writeManifest\<close> have not
  run, and there was one transfer. In particular, for a tarball name without a slash, the
  manifest file and the \<open>package\<close> directory with all below it are what they were.
\<close>

theorem checksum_mismatch_is_fatal:
  fixes env fs packageName destDir version force info url s content
  defines "tarballPath \<equiv> path_join destDir (replace_slash packageName @ ''-'' @ vi_version info @ ''.tgz'')"
  defines "dl \<equiv> downloadFile fs tarballPath (http_get env url)"
  defines "after \<equiv> snd (downloadFromNpm env fs packageName destDir version force)"
  assumes info: "getNpmPackageVersionInfo env packageName version = Inr info"
    and url: "vi_tarball info = Some url" "url \<noteq> []"
    and sha: "vi_shasum info = Some s" "s \<noteq> []"
    and stale: "force \<or> \<not> upToDate (checkIfUpToDate (json env) fs destDir packageName
                   (JStr (vi_version info)) (JStr s))"
    and resolved: "promise dl = Some (Resolved tarballPath)" "uncaught dl = None"
    and isfile: "dl_fs dl tarballPath = Some (File content)"
    and bad: "to_lower (sha1_hex env content) \<noteq> to_lower s"
  shows "downloadFromNpm env fs packageName destDir version force =
       (Thrown (Error (''Checksum verification failed for '' @ packageName @ ''@'' @ vi_version info)),
        (dl_fs dl)(tarballPath := None)) \<and>
     after tarballPath = None \<and>
     (\<forall>q. q \<noteq> tarballPath \<and> q \<noteq> dirname tarballPath \<and> q \<notin> set (ancestors (dirname tarballPath))
          \<longrightarrow> after q = fs q) \<and>
     (CHR ''/'' \<notin> set (replace_slash packageName @ ''-'' @ vi_version info) \<longrightarrow>
        after (path_join destDir MANIFEST_FILENAME) = fs (path_join destDir MANIFEST_FILENAME) \<and>
        (\<forall>q. q = path_join destDir ''package'' \<or> prefix (path_join destDir ''package'' @ ''/'') q
             \<longrightarrow> after q = fs q))"
proof -
  have v: "verifyChecksum env (dl_fs dl) tarballPath s = Inr False"
    using isfile bad by (simp add: verifyChecksum_def readFileSync_def)
  have u: "unlinkSync (dl_fs dl) tarballPath = Inr ((dl_fs dl)(tarballPath := None))"
    using isfile by (simp add: unlinkSync_def)
  have t: "or_opt (vi_tarball info) [] = url"
    using url by (simp add: or_opt_def)
  have sh: "or_opt (vi_shasum info) [] = s" "opt_val (vi_shasum info) = JStr s"
    using sha by (simp_all add: or_opt_def opt_val_def)
  have go: "\<not> (\<not> force \<and> upToDate (checkIfUpToDate (json env) fs destDir packageName
                   (JStr (vi_version info)) (JStr s)))"
    using stale by blast
  have run: "downloadFromNpm env fs packageName destDir version force =
       (Thrown (Error (''Checksum verification failed for '' @ packageName @ ''@'' @ vi_version info)),
        (dl_fs dl)(tarballPath := None))"
    unfolding downloadFromNpm_def Let_def info t sh sum.case
      tarballPath_def [symmetric] dl_def [symmetric]
    using url(2) sha(2) go resolved v u
    by simp
  have after: "after = (dl_fs dl)(tarballPath := None)"
    unfolding after_def run by simp
  have frame: "after q = fs q"
    if "q \<noteq> tarballPath" "q \<noteq> dirname tarballPath" "q \<notin> set (ancestors (dirname tarballPath))" for q
    unfolding after dl_def using that by (simp add: downloadFile_frame)
  have flat: "after (path_join destDir MANIFEST_FILENAME) = fs (path_join destDir MANIFEST_FILENAME) \<and>
        (\<forall>q. q = path_join destDir ''package'' \<or> prefix (path_join destDir ''package'' @ ''/'') q
             \<longrightarrow> after q = fs q)"
    if n: "CHR ''/'' \<notin> set (replace_slash packageName @ ''-'' @ vi_version info)"
  proof -
    have n': "CHR ''/'' \<notin> set (replace_slash packageName @ ''-'' @ vi_version info @ ''.tgz'')"
      using n by simp
    have d: "dirname tarballPath = (if destDir = [] then ''/'' else destDir)"
      unfolding tarballPath_def using n' by (rule dirname_join)
    have longer: "q \<noteq> dirname tarballPath \<and> q \<notin> set (ancestors (dirname tarballPath))"
      if "length destDir + 1 < length q" for q
    proof -
      have "length (dirname tarballPath) \<le> length destDir + 1"
        by (simp add: d)
      then show ?thesis
        using that ancestors_shorter [of q "dirname tarballPath"] by auto
    qed
    have m: "after (path_join destDir MANIFEST_FILENAME) = fs (path_join destDir MANIFEST_FILENAME)"
    proof (rule frame)
      show "path_join destDir MANIFEST_FILENAME \<noteq> tarballPath"
        using tarball_name_differs [of packageName "vi_version info"]
        by (simp add: tarballPath_def path_join_def)
      show "path_join destDir MANIFEST_FILENAME \<noteq> dirname tarballPath"
        using longer [of "path_join destDir MANIFEST_FILENAME"]
        by (simp add: path_join_def MANIFEST_FILENAME_def)
      show "path_join destDir MANIFEST_FILENAME \<notin> set (ancestors (dirname tarballPath))"
        using longer [of "path_join destDir MANIFEST_FILENAME"]
        by (simp add: path_join_def MANIFEST_FILENAME_def)
    qed
    have p: "after q = fs q"
      if pq: "q = path_join destDir ''package'' \<or> prefix (path_join destDir ''package'' @ ''/'') q" for q
    proof (rule frame)
      obtain z where z: "q = destDir @ ''/package'' @ z" and zz: "z = [] \<or> hd z = CHR ''/''"
        using pq by (auto simp: prefix_def path_join_def)
      show "q \<noteq> tarballPath"
      proof
        assume "q = tarballPath"
        then have e: "''package'' @ z = replace_slash packageName @ ''-'' @ vi_version info @ ''.tgz''"
          unfolding z tarballPath_def path_join_def by simp
        show False
        proof (cases "z = []")
          case True
          with e have "''package'' = replace_slash packageName @ ''-'' @ vi_version info @ ''.tgz''"
            by simp
          then have "last ''package'' = last (replace_slash packageName @ ''-'' @ vi_version info @ ''.tgz'')"
            by (rule arg_cong)
          then show False by simp
        next
          case False
          then have "CHR ''/'' \<in> set z"
            using zz hd_in_set [of z] by auto
          then have "CHR ''/'' \<in> set (''package'' @ z)" by simp
          then have "CHR ''/'' \<in> set (replace_slash packageName @ ''-'' @ vi_version info @ ''.tgz'')"
            by (simp only: e)
          then show False using n' by blast
        qed
      qed
      show "q \<noteq> dirname tarballPath"
        using longer [of q] by (simp add: z)
      show "q \<notin> set (ancestors (dirname tarballPath))"
        using longer [of q] by (simp add: z)
    qed
    show ?thesis using m p by blast
  qed
  show ?thesis
    using run after frame flat by auto
qed


theorem checksum_mismatch_is_fatal_witness:
  "fst (downloadFromNpm corrupt_npm_env fresh_fs ''@anthropic-ai/claude-code'' ''core/claude-code''
          None False)
     = Thrown (Error ''Checksum verification failed for @anthropic-ai/claude-code@2.0.76'') \<and>
   snd (downloadFromNpm corrupt_npm_env fresh_fs ''@anthropic-ai/claude-code'' ''core/claude-code''
          None False) ''core/claude-code/@anthropic-ai-claude-code-2.0.76.tgz'' = None \<and>
   snd (downloadFromNpm corrupt_npm_env fresh_fs ''@anthropic-ai/claude-code'' ''core/claude-code''
          None False) ''core/claude-code/.atomcli-manifest.json''
     = fresh_fs ''core/claude-code/.atomcli-manifest.json'' \<and>
   snd (downloadFromNpm corrupt_npm_env fresh_fs ''@anthropic-ai/claude-code'' ''core/claude-code''
          None False) ''core/claude-code/package'' = fresh_fs ''core/claude-code/package''"
proof -
  have info: "getNpmPackageVersionInfo corrupt_npm_env ''@anthropic-ai/claude-code'' None = Inr claude_2_0_76"
    by (simp add: corrupt_npm_env_def)
  have url: "vi_tarball claude_2_0_76
      = Some ''https://registry.npmjs.org/@anthropic-ai/claude-code/-/claude-code-2.0.76.tgz''"
    "''https://registry.npmjs.org/@anthropic-ai/claude-code/-/claude-code-2.0.76.tgz'' \<noteq> []"
    by (simp_all add: claude_2_0_76_def)
  have sha: "vi_shasum claude_2_0_76 = Some ''9B2F0C6D1E4B5A6978C0D1E2F3A4B5C6D7E8F902''"
    "''9B2F0C6D1E4B5A6978C0D1E2F3A4B5C6D7E8F902'' \<noteq> []"
    by (simp_all add: claude_2_0_76_def)
  have ver: "vi_version claude_2_0_76 = ''2.0.76''"
    by (simp add: claude_2_0_76_def)
  have js: "json corrupt_npm_env = example_codec"
    by (simp add: corrupt_npm_env_def)
  have stale: "False \<or> \<not> upToDate (checkIfUpToDate (json corrupt_npm_env) fresh_fs ''core/claude-code''
      ''@anthropic-ai/claude-code'' (JStr (vi_version claude_2_0_76))
      (JStr ''9B2F0C6D1E4B5A6978C0D1E2F3A4B5C6D7E8F902''))"
    unfolding js ver by code_simp
  have name: "path_join ''core/claude-code''
      (replace_slash ''@anthropic-ai/claude-code'' @ ''-'' @ vi_version claude_2_0_76 @ ''.tgz'')
      = ''core/claude-code/@anthropic-ai-claude-code-2.0.76.tgz''"
    unfolding ver by (simp add: path_join_def)
  have get: "http_get corrupt_npm_env ''https://registry.npmjs.org/@anthropic-ai/claude-code/-/claude-code-2.0.76.tgz''
      = [Response 200 ''OK'' None, Data ''not the '', Data ''tarball'', Finish]"
    by (simp add: corrupt_npm_env_def)
  have dl: "promise (downloadFile fresh_fs ''core/claude-code/@anthropic-ai-claude-code-2.0.76.tgz''
        [Response 200 ''OK'' None, Data ''not the '', Data ''tarball'', Finish])
      = Some (Resolved ''core/claude-code/@anthropic-ai-claude-code-2.0.76.tgz'')"
    "uncaught (downloadFile fresh_fs ''core/claude-code/@anthropic-ai-claude-code-2.0.76.tgz''
        [Response 200 ''OK'' None, Data ''not the '', Data ''tarball'', Finish]) = None"
    "dl_fs (downloadFile fresh_fs ''core/claude-code/@anthropic-ai-claude-code-2.0.76.tgz''
        [Response 200 ''OK'' None, Data ''not the '', Data ''tarball'', Finish])
        ''core/claude-code/@anthropic-ai-claude-code-2.0.76.tgz'' = Some (File ''not the tarball'')"
    by code_simp+
  have bad: "to_lower (sha1_hex corrupt_npm_env ''not the tarball'')
      \<noteq> to_lower ''9B2F0C6D1E4B5A6978C0D1E2F3A4B5C6D7E8F902''"
    by code_simp
  have flat: "CHR ''/'' \<notin> set (replace_slash ''@anthropic-ai/claude-code'' @ ''-'' @ vi_version claude_2_0_76)"
    unfolding ver by simp
  note inst = checksum_mismatch_is_fatal [of corrupt_npm_env "''@anthropic-ai/claude-code''" None
      claude_2_0_76 _ _ False fresh_fs "''core/claude-code''" "''not the tarball''",
      OF info url sha stale, unfolded name get, OF dl bad]
  have pk: "path_join ''core/claude-code'' ''package'' = ''core/claude-code/package''"
    by (simp add: path_join_def)
  have mp: "path_join ''core/claude-code'' MANIFEST_FILENAME = ''core/claude-code/.atomcli-manifest.json''"
    by (simp add: path_join_def MANIFEST_FILENAME_def)
  from inst flat show ?thesis
    unfolding ver mp pk by auto
qed

end
